theory Spec2Isabelle
  imports Main
begin

section \<open>The either sum type\<close>

text \<open>
  Modelled from the spec: \<^verbatim>\<open>either.h\<close> is not among the sources. The spec (data model)
  gives \<^verbatim>\<open>Either<L,R>\<close> as "exactly one of {Left(L), Right(R)} active", the success
  case being \<^verbatim>\<open>Right\<close>. \<^verbatim>\<open>make_left<R>(l)\<close> and \<^verbatim>\<open>make_right<L>(r)\<close> build the two
  cases; \<^verbatim>\<open>if(e)\<close> tests for \<^verbatim>\<open>Right\<close>, \<^verbatim>\<open>*e\<close> reads the right payload and
  \<^verbatim>\<open>e.left()\<close> the left one, which is a case distinction here.
\<close>

datatype ('l, 'r) either = Left 'l | Right 'r

abbreviation make_left :: "'l \<Rightarrow> ('l, 'r) either" where
  "make_left l \<equiv> Left l"

abbreviation make_right :: "'r \<Rightarrow> ('l, 'r) either" where
  "make_right r \<equiv> Right r"

text \<open>
  Modelled from the spec: the functor map of \<^verbatim>\<open>either\<close> (\<^verbatim>\<open>f % e\<close>), which applies
  \<open>f\<close> to a right payload and passes a left one on.
\<close>

fun either_map :: "('t \<Rightarrow> 'u) \<Rightarrow> ('l, 't) either \<Rightarrow> ('l, 'u) either" where
  "either_map f (Right t) = Right (f t)"
| "either_map f (Left l) = Left l"

text \<open>
  Modelled from the spec: the monadic bind of \<^verbatim>\<open>either\<close> (\<^verbatim>\<open>e >>= f\<close>).
\<close>

fun either_bind :: "('l, 't) either \<Rightarrow> ('t \<Rightarrow> ('l, 'u) either) \<Rightarrow> ('l, 'u) either" where
  "either_bind (Right t) f = f t"
| "either_bind (Left l) f = Left l"

text \<open>
  Modelled from the spec: \<^verbatim>\<open>aPure<either<L,U>>()\<close> of \<^verbatim>\<open>prelude.h\<close> is the function
  object of \<^verbatim>\<open>applicative<either<L,U>>::pure\<close>, which embeds a value as \<^verbatim>\<open>Right\<close>.
\<close>

definition aPure :: "'u \<Rightarrow> ('l, 'u) either" where
  "aPure u = make_right u"

section \<open>The either transformer\<close>

text \<open>
  \<^verbatim>\<open>class eitherT<L,M>\<close> has the single private member \<^verbatim>\<open>Met mEither\<close>, where
  \<^verbatim>\<open>Met\<close> is \<^verbatim>\<open>M\<close> re-parametrised over \<^verbatim>\<open>either<L,T>\<close>. HOL has no type
  constructor variables, so the record is parametrised by the type \<open>'met\<close> itself.
\<close>

record 'met eitherT =
  mEither :: 'met

text \<open>The two explicit constructors, from \<^verbatim>\<open>const Met&\<close> and from \<^verbatim>\<open>Met&&\<close>.\<close>

definition eitherT_ctor :: "'met \<Rightarrow> 'met eitherT" where
  "eitherT_ctor m = \<lparr>mEither = m\<rparr>"

text \<open>
  In-place construction forwards its arguments to a constructor of \<^verbatim>\<open>Met\<close>, which is
  the parameter \<open>mk\<close>.
\<close>

definition eitherT_inplace :: "('args \<Rightarrow> 'met) \<Rightarrow> 'args \<Rightarrow> 'met eitherT" where
  "eitherT_inplace mk args = \<lparr>mEither = mk args\<rparr>"

text \<open>\<^verbatim>\<open>operator*\<close> returns (a reference to) \<^verbatim>\<open>mEither\<close>.\<close>

definition deref :: "'met eitherT \<Rightarrow> 'met" where
  "deref e = mEither e"

text \<open>
  \<^verbatim>\<open>operator->\<close> returns the address of \<^verbatim>\<open>mEither\<close>; what is read through that
  pointer is the member.
\<close>

definition arrow :: "'met eitherT \<Rightarrow> 'met" where
  "arrow e = mEither e"

section \<open>The monad instance of the either transformer\<close>

text \<open>
  \<^verbatim>\<open>monad<eitherT<L,M>>\<close> is generic in the base monad \<^verbatim>\<open>M\<close>, whose instance
  (\<^verbatim>\<open>monad<M_<...>>::pure\<close>, \<^verbatim>\<open>operator>>=\<close>, \<^verbatim>\<open>operator%\<close>, \<^verbatim>\<open>liftM\<close>) lives in
  other headers. Each operation below therefore takes the operations of \<^verbatim>\<open>M\<close> it calls
  as parameters, at the element types it calls them at: \<open>pureM\<close> for
  \<^verbatim>\<open>monad<...>::pure\<close>, \<open>bindM\<close> for \<^verbatim>\<open>>>=\<close> and \<open>mapM\<close> for \<^verbatim>\<open>%\<close>.
\<close>

definition eitherT_pure :: "(('l, 't) either \<Rightarrow> 'met) \<Rightarrow> 't \<Rightarrow> 'met eitherT" where
  "eitherT_pure pureM t = eitherT_ctor (pureM (make_right t))"

text \<open>\<^verbatim>\<open>map(f, e)\<close>: the lambda \<^verbatim>\<open>[f](const either<L,T>& e) { return f % e; }\<close> mapped over \<^verbatim>\<open>*e\<close>.\<close>

definition eitherT_map ::
  "((('l, 't) either \<Rightarrow> ('l, 'u) either) \<Rightarrow> 'met \<Rightarrow> 'meu) \<Rightarrow> ('t \<Rightarrow> 'u) \<Rightarrow>
   'met eitherT \<Rightarrow> 'meu eitherT" where
  "eitherT_map mapM f e = eitherT_ctor (mapM (\<lambda>e'. either_map f e') (deref e))"

text \<open>
  The primary template \<^verbatim>\<open>bind_helper<M2>\<close>: the continuation returns the base monad
  over \<^verbatim>\<open>U\<close>, and its result is lifted.
\<close>

definition bind_helper_lift ::
  "('met \<Rightarrow> (('l, 't) either \<Rightarrow> 'meu) \<Rightarrow> 'meu) \<Rightarrow> (('u \<Rightarrow> ('l, 'u) either) \<Rightarrow> 'mu \<Rightarrow> 'meu) \<Rightarrow>
   (('l, 'u) either \<Rightarrow> 'meu) \<Rightarrow> 'met eitherT \<Rightarrow> ('t \<Rightarrow> 'mu) \<Rightarrow> 'meu eitherT" where
  "bind_helper_lift bindM mapM pureM e f =
     eitherT_ctor (bindM (deref e) (\<lambda>e'.
       case e' of
         Right t \<Rightarrow> mapM aPure (f t)
       | Left l \<Rightarrow> pureM (make_left l)))"

text \<open>
  The specialisation \<^verbatim>\<open>bind_helper<eitherT<L,M2>>\<close>, "normal case": the continuation
  returns a computation in the transformer, which is unwrapped.
\<close>

definition bind_helper_eitherT ::
  "('met \<Rightarrow> (('l, 't) either \<Rightarrow> 'meu) \<Rightarrow> 'meu) \<Rightarrow> (('l, 'u) either \<Rightarrow> 'meu) \<Rightarrow>
   'met eitherT \<Rightarrow> ('t \<Rightarrow> 'meu eitherT) \<Rightarrow> 'meu eitherT" where
  "bind_helper_eitherT bindM pureM e f =
     eitherT_ctor (bindM (deref e) (\<lambda>e'.
       case e' of
         Right t \<Rightarrow> deref (f t)
       | Left l \<Rightarrow> pureM (make_left l)))"

text \<open>
  The specialisation \<^verbatim>\<open>bind_helper<either<L,U>>\<close>, hoisting: it binds \<open>e\<close> (with
  \<^verbatim>\<open>>>=\<close> of the transformer, whose continuation here returns a transformer value, so
  that the normal case is selected) to a continuation that embeds
  \<^verbatim>\<open>make_right<L>(t) >>= f\<close> with the base monad's \<^verbatim>\<open>pure\<close>.
\<close>

definition bind_helper_either ::
  "('met \<Rightarrow> (('l, 't) either \<Rightarrow> 'meu) \<Rightarrow> 'meu) \<Rightarrow> (('l, 'u) either \<Rightarrow> 'meu) \<Rightarrow>
   'met eitherT \<Rightarrow> ('t \<Rightarrow> ('l, 'u) either) \<Rightarrow> 'meu eitherT" where
  "bind_helper_either bindM pureM e f =
     bind_helper_eitherT bindM pureM e (\<lambda>t.
       eitherT_ctor (pureM (either_bind (make_right t) f)))"

text \<open>
  \<^verbatim>\<open>bind(e, f)\<close> selects the helper from the static result type of \<open>f\<close>. The three
  result types that the helpers accept are the three cases of a continuation here.
\<close>

datatype ('t, 'l, 'u, 'mu, 'meu) continuation =
    Transformer "'t \<Rightarrow> 'meu eitherT"
  | Lift "'t \<Rightarrow> 'mu"
  | Hoist "'t \<Rightarrow> ('l, 'u) either"

definition eitherT_bind ::
  "('met \<Rightarrow> (('l, 't) either \<Rightarrow> 'meu) \<Rightarrow> 'meu) \<Rightarrow> (('u \<Rightarrow> ('l, 'u) either) \<Rightarrow> 'mu \<Rightarrow> 'meu) \<Rightarrow>
   (('l, 'u) either \<Rightarrow> 'meu) \<Rightarrow> 'met eitherT \<Rightarrow> ('t, 'l, 'u, 'mu, 'meu) continuation \<Rightarrow>
   'meu eitherT" where
  "eitherT_bind bindM mapM pureM e k =
     (case k of
        Transformer f \<Rightarrow> bind_helper_eitherT bindM pureM e f
      | Lift f \<Rightarrow> bind_helper_lift bindM mapM pureM e f
      | Hoist f \<Rightarrow> bind_helper_either bindM pureM e f)"

section \<open>The function monad\<close>

text \<open>
  Modelled from the spec: the instance of the base function monad \<^verbatim>\<open>function<R,P>\<close> is
  not among the sources. It is the monad of functions from a fixed parameter: \<^verbatim>\<open>pure\<close>
  ignores the parameter, \<^verbatim>\<open>map\<close> composes, and \<^verbatim>\<open>bind\<close> passes the parameter to both
  computations. The tests of the sibling transformer over \<^verbatim>\<open>function<int,int>\<close> fix this
  reading: \<^verbatim>\<open>(*pure(10))(50)\<close> is 10, and binding \<^verbatim>\<open>x \<mapsto> value(x)\<close> to
  \<^verbatim>\<open>x \<mapsto> (y \<mapsto> value((x+y)/4))\<close> gives 1 at 2.
\<close>

definition function_pure :: "'a \<Rightarrow> ('p \<Rightarrow> 'a)" where
  "function_pure a = (\<lambda>p. a)"

definition function_map :: "('a \<Rightarrow> 'b) \<Rightarrow> ('p \<Rightarrow> 'a) \<Rightarrow> ('p \<Rightarrow> 'b)" where
  "function_map f m = (\<lambda>p. f (m p))"

definition function_bind :: "('p \<Rightarrow> 'a) \<Rightarrow> ('a \<Rightarrow> ('p \<Rightarrow> 'b)) \<Rightarrow> ('p \<Rightarrow> 'b)" where
  "function_bind m f = (\<lambda>p. f (m p) p)"


section \<open>The foldable instance of the either transformer\<close>

text \<open>
  \<^verbatim>\<open>foldable<eitherT<L,M>>::foldl\<close> and \<^verbatim>\<open>foldr\<close> hand a lambda to the fold of the
  transformed type, \<^verbatim>\<open>foldable<Met>\<close>, which is the parameter \<open>foldlM\<close> (\<open>foldrM\<close>).

  In both calls the source reads \<^verbatim>\<open>foldable<Met>::foldl(lambda, z *me)\<close>: there is no
  comma between \<^verbatim>\<open>z\<close> and \<^verbatim>\<open>*me\<close>, so that the second argument is the product
  \<^verbatim>\<open>z * me\<close> and the fold of \<^verbatim>\<open>Met\<close> is called with two arguments. No instantiation of
  either template compiles. The definitions below read the calls with the comma, that is
  with the three arguments \<^verbatim>\<open>lambda\<close>, \<^verbatim>\<open>z\<close> and \<^verbatim>\<open>*me\<close>.

  The two lambdas are the same but for the call of \<open>f\<close>: both are declared
  \<^verbatim>\<open>(const either<L,T>& e, U z)\<close>, element first.
\<close>

definition eitherT_foldl_lambda :: "('u \<Rightarrow> 't \<Rightarrow> 'u) \<Rightarrow> ('l, 't) either \<Rightarrow> 'u \<Rightarrow> 'u" where
  "eitherT_foldl_lambda f e z = (case e of Right t \<Rightarrow> f z t | Left l \<Rightarrow> z)"

definition eitherT_foldr_lambda :: "('t \<Rightarrow> 'u \<Rightarrow> 'u) \<Rightarrow> ('l, 't) either \<Rightarrow> 'u \<Rightarrow> 'u" where
  "eitherT_foldr_lambda f e z = (case e of Right t \<Rightarrow> f t z | Left l \<Rightarrow> z)"

text \<open>
  A left fold calls its function with the accumulator first and the element second (the
  constraint on \<^verbatim>\<open>F\<close> in \<^verbatim>\<open>foldl\<close> itself is \<^verbatim>\<open>F(U,T)\<close>), so the fold of \<^verbatim>\<open>Met\<close>
  wants a function from \<^verbatim>\<open>U\<close> and \<^verbatim>\<open>either<L,T>\<close>, and is given one from
  \<^verbatim>\<open>either<L,T>\<close> and \<^verbatim>\<open>U\<close>. The call is well typed only where \<^verbatim>\<open>U\<close> is
  \<^verbatim>\<open>either<L,T>\<close>, which is the type of this definition.
\<close>

definition eitherT_foldl ::
  "((('l, 't) either \<Rightarrow> ('l, 't) either \<Rightarrow> ('l, 't) either) \<Rightarrow> ('l, 't) either \<Rightarrow> 'met \<Rightarrow>
      ('l, 't) either) \<Rightarrow>
   (('l, 't) either \<Rightarrow> 't \<Rightarrow> ('l, 't) either) \<Rightarrow> ('l, 't) either \<Rightarrow> 'met eitherT \<Rightarrow>
   ('l, 't) either" where
  "eitherT_foldl foldlM f z me = foldlM (eitherT_foldl_lambda f) z (deref me)"

text \<open>A right fold calls its function with the element first, as the lambda is declared.\<close>

definition eitherT_foldr ::
  "((('l, 't) either \<Rightarrow> 'u \<Rightarrow> 'u) \<Rightarrow> 'u \<Rightarrow> 'met \<Rightarrow> 'u) \<Rightarrow> ('t \<Rightarrow> 'u \<Rightarrow> 'u) \<Rightarrow> 'u \<Rightarrow>
   'met eitherT \<Rightarrow> 'u" where
  "eitherT_foldr foldrM f z me = foldrM (eitherT_foldr_lambda f) z (deref me)"

text \<open>
  Modelled from the spec: the foldable instance of a list as base monad, which is not
  among the sources. The left fold calls \<^verbatim>\<open>f(acc, x)\<close> from the front, the right fold
  \<^verbatim>\<open>f(x, acc)\<close> from the back.
\<close>

fun list_foldl :: "('u \<Rightarrow> 'a \<Rightarrow> 'u) \<Rightarrow> 'u \<Rightarrow> 'a list \<Rightarrow> 'u" where
  "list_foldl f z [] = z"
| "list_foldl f z (x # xs) = list_foldl f (f z x) xs"

fun list_foldr :: "('a \<Rightarrow> 'u \<Rightarrow> 'u) \<Rightarrow> 'u \<Rightarrow> 'a list \<Rightarrow> 'u" where
  "list_foldr f z [] = z"
| "list_foldr f z (x # xs) = f x (list_foldr f z xs)"

text \<open>The right payloads of a list of either values, in order.\<close>

fun rights :: "('l, 't) either list \<Rightarrow> 't list" where
  "rights [] = []"
| "rights (Right t # es) = t # rights es"
| "rights (Left l # es) = rights es"

section \<open>The monoidal alternative instance of the either transformer\<close>

text \<open>
  \<^verbatim>\<open>monoidA<eitherT<L,M>>\<close> needs \<^verbatim>\<open>L\<close> to be a monoid. The instance \<^verbatim>\<open>monoid<L>\<close> is
  taken as the two parameters \<open>monoid_id\<close> (\<^verbatim>\<open>monoid<L>::id()\<close>) and \<open>monoid_append\<close>
  (\<^verbatim>\<open>operator^\<close>); \<open>liftM\<close> is the base monad's \<^verbatim>\<open>liftM\<close> at \<^verbatim>\<open>Met\<close>.
\<close>

definition eitherT_fail :: "(('l, 't) either \<Rightarrow> 'met) \<Rightarrow> 'l \<Rightarrow> 'met eitherT" where
  "eitherT_fail pureM monoid_id = eitherT_ctor (pureM (make_left monoid_id))"

definition orDo ::
  "('met \<Rightarrow> (('l, 't) either \<Rightarrow> 'met) \<Rightarrow> 'met) \<Rightarrow> (('l, 't) either \<Rightarrow> 'met) \<Rightarrow>
   ((('l, 't) either \<Rightarrow> ('l, 't) either) \<Rightarrow> 'met \<Rightarrow> 'met) \<Rightarrow> ('l \<Rightarrow> 'l \<Rightarrow> 'l) \<Rightarrow>
   'met eitherT \<Rightarrow> 'met eitherT \<Rightarrow> 'met eitherT" where
  "orDo bindM pureM liftM monoid_append e1 e2 =
     eitherT_ctor (bindM (deref e1) (\<lambda>e.
       case e of
         Right t \<Rightarrow> pureM e
       | Left l1 \<Rightarrow>
           liftM (\<lambda>e2'.
             case e2' of
               Right t2 \<Rightarrow> e2'
             | Left l2 \<Rightarrow> make_left (monoid_append l1 l2))
             (deref e2)))"

section \<open>Invocations of the functions given to map and bind\<close>

text \<open>
  Whether \<^verbatim>\<open>map\<close> and \<^verbatim>\<open>bind\<close> invoke the function they are given does not show in
  their results alone. For that, the function objects are given what a call of a function
  object can do beyond returning a value: it may read and change the state of the program
  around it, the world, of any type \<open>'w\<close> (a counter of calls, say). A call maps the
  world to its result and the new world, and everything that calls a function object
  passes the world through the calls in the order of the source. So a function that was
  invoked shows in the world, and a world that is unchanged whatever the function is
  shows that it was not invoked.
\<close>

type_synonym ('w, 'a) call = "'w \<Rightarrow> 'a \<times> 'w"

text \<open>
  Modelled from the spec: the functor map and the monadic bind of \<^verbatim>\<open>either\<close>, which are
  not among the sources, with the calls they make. The spec has them apply the function
  to a right payload only; they invoke it once there, and not at all on a left value.
\<close>

fun either_map_fx ::
  "('t \<Rightarrow> ('w, 'u) call) \<Rightarrow> ('l, 't) either \<Rightarrow> ('w, ('l, 'u) either) call" where
  "either_map_fx f (Right t) w = (case f t w of (u, w') \<Rightarrow> (Right u, w'))"
| "either_map_fx f (Left l) w = (Left l, w)"

fun either_bind_fx ::
  "('l, 't) either \<Rightarrow> ('t \<Rightarrow> ('w, ('l, 'u) either) call) \<Rightarrow> ('w, ('l, 'u) either) call" where
  "either_bind_fx (Right t) f w = f t w"
| "either_bind_fx (Left l) f w = (Left l, w)"

text \<open>
  The operations of \<^verbatim>\<open>monad<eitherT<L,M>>\<close> again, line by line as above, with the
  calls. The map and the bind of the base monad are parameters as before; they take a
  function object and are calls themselves. Its \<^verbatim>\<open>pure\<close> takes a value only.

  \<^verbatim>\<open>map(f, e)\<close>: \<^verbatim>\<open>[f](const either<L,T>& e) { return f % e; } % *e\<close>.
\<close>

definition eitherT_map_fx ::
  "((('l, 't) either \<Rightarrow> ('w, ('l, 'u) either) call) \<Rightarrow> 'met \<Rightarrow> ('w, 'meu) call) \<Rightarrow>
   ('t \<Rightarrow> ('w, 'u) call) \<Rightarrow> 'met eitherT \<Rightarrow> ('w, 'meu eitherT) call" where
  "eitherT_map_fx mapM f e w =
     (case mapM (\<lambda>e'. either_map_fx f e') (deref e) w of
        (m, w') \<Rightarrow> (eitherT_ctor m, w'))"

text \<open>
  \<^verbatim>\<open>bind_helper<M2>\<close>, lift. In the right case \<^verbatim>\<open>f(*e)\<close> is called, and then
  \<^verbatim>\<open>aPure<either<L,U>>()\<close>, which changes nothing, is mapped over what it returned.
\<close>

definition bind_helper_lift_fx ::
  "('met \<Rightarrow> (('l, 't) either \<Rightarrow> ('w, 'meu) call) \<Rightarrow> ('w, 'meu) call) \<Rightarrow>
   (('u \<Rightarrow> ('w, ('l, 'u) either) call) \<Rightarrow> 'mu \<Rightarrow> ('w, 'meu) call) \<Rightarrow>
   (('l, 'u) either \<Rightarrow> 'meu) \<Rightarrow> 'met eitherT \<Rightarrow> ('t \<Rightarrow> ('w, 'mu) call) \<Rightarrow>
   ('w, 'meu eitherT) call" where
  "bind_helper_lift_fx bindM mapM pureM e f w =
     (case bindM (deref e) (\<lambda>e' w1.
        case e' of
          Right t \<Rightarrow> (case f t w1 of (mu, w2) \<Rightarrow> mapM (\<lambda>u w3. (aPure u, w3)) mu w2)
        | Left l \<Rightarrow> (pureM (make_left l), w1)) w of
        (m, w') \<Rightarrow> (eitherT_ctor m, w'))"

text \<open>\<^verbatim>\<open>bind_helper<eitherT<L,M2>>\<close>, the normal case.\<close>

definition bind_helper_eitherT_fx ::
  "('met \<Rightarrow> (('l, 't) either \<Rightarrow> ('w, 'meu) call) \<Rightarrow> ('w, 'meu) call) \<Rightarrow>
   (('l, 'u) either \<Rightarrow> 'meu) \<Rightarrow> 'met eitherT \<Rightarrow> ('t \<Rightarrow> ('w, 'meu eitherT) call) \<Rightarrow>
   ('w, 'meu eitherT) call" where
  "bind_helper_eitherT_fx bindM pureM e f w =
     (case bindM (deref e) (\<lambda>e' w1.
        case e' of
          Right t \<Rightarrow> (case f t w1 of (r, w2) \<Rightarrow> (deref r, w2))
        | Left l \<Rightarrow> (pureM (make_left l), w1)) w of
        (m, w') \<Rightarrow> (eitherT_ctor m, w'))"

text \<open>\<^verbatim>\<open>bind_helper<either<L,U>>\<close>, hoisting.\<close>

definition bind_helper_either_fx ::
  "('met \<Rightarrow> (('l, 't) either \<Rightarrow> ('w, 'meu) call) \<Rightarrow> ('w, 'meu) call) \<Rightarrow>
   (('l, 'u) either \<Rightarrow> 'meu) \<Rightarrow> 'met eitherT \<Rightarrow> ('t \<Rightarrow> ('w, ('l, 'u) either) call) \<Rightarrow>
   ('w, 'meu eitherT) call" where
  "bind_helper_either_fx bindM pureM e f w =
     bind_helper_eitherT_fx bindM pureM e (\<lambda>t w1.
       case either_bind_fx (make_right t) f w1 of
         (r, w2) \<Rightarrow> (eitherT_ctor (pureM r), w2)) w"

datatype ('t, 'l, 'u, 'mu, 'meu, 'w) continuation_fx =
    Transformer_fx "'t \<Rightarrow> ('w, 'meu eitherT) call"
  | Lift_fx "'t \<Rightarrow> ('w, 'mu) call"
  | Hoist_fx "'t \<Rightarrow> ('w, ('l, 'u) either) call"

definition eitherT_bind_fx ::
  "('met \<Rightarrow> (('l, 't) either \<Rightarrow> ('w, 'meu) call) \<Rightarrow> ('w, 'meu) call) \<Rightarrow>
   (('u \<Rightarrow> ('w, ('l, 'u) either) call) \<Rightarrow> 'mu \<Rightarrow> ('w, 'meu) call) \<Rightarrow>
   (('l, 'u) either \<Rightarrow> 'meu) \<Rightarrow> 'met eitherT \<Rightarrow>
   ('t, 'l, 'u, 'mu, 'meu, 'w) continuation_fx \<Rightarrow> ('w, 'meu eitherT) call" where
  "eitherT_bind_fx bindM mapM pureM e k w =
     (case k of
        Transformer_fx f \<Rightarrow> bind_helper_eitherT_fx bindM pureM e f w
      | Lift_fx f \<Rightarrow> bind_helper_lift_fx bindM mapM pureM e f w
      | Hoist_fx f \<Rightarrow> bind_helper_either_fx bindM pureM e f w)"

text \<open>
  Modelled from the spec: the function monad with the calls. A \<^verbatim>\<open>function<R,P>\<close> is a
  function object, so applying it to a parameter is a call. Its \<^verbatim>\<open>map\<close> and \<^verbatim>\<open>bind\<close>
  build a new function object and call nothing; the object built, when applied to \<open>p\<close>,
  applies the given object to \<open>p\<close>, then calls the function on the result, and for
  \<^verbatim>\<open>bind\<close> applies what that returned to \<open>p\<close>.
\<close>

definition function_pure_fx :: "'a \<Rightarrow> ('p \<Rightarrow> ('w, 'a) call)" where
  "function_pure_fx a = (\<lambda>p w. (a, w))"

definition function_map_fx ::
  "('a \<Rightarrow> ('w, 'b) call) \<Rightarrow> ('p \<Rightarrow> ('w, 'a) call) \<Rightarrow> ('w, 'p \<Rightarrow> ('w, 'b) call) call" where
  "function_map_fx f m w = (\<lambda>p w1. case m p w1 of (a, w2) \<Rightarrow> f a w2, w)"

definition function_bind_fx ::
  "('p \<Rightarrow> ('w, 'a) call) \<Rightarrow> ('a \<Rightarrow> ('w, 'p \<Rightarrow> ('w, 'b) call) call) \<Rightarrow>
   ('w, 'p \<Rightarrow> ('w, 'b) call) call" where
  "function_bind_fx m k w =
     (\<lambda>p w1. case m p w1 of (a, w2) \<Rightarrow> (case k a w2 of (m', w3) \<Rightarrow> m' p w3), w)"

text \<open>
  Modelled from the spec: the monad of \<^verbatim>\<open>maybe<T>\<close> with the calls (\<^verbatim>\<open>maybe.h\<close> is not
  among the sources), a base monad whose \<^verbatim>\<open>map\<close> and \<^verbatim>\<open>bind\<close> call the function at
  once, on the value if there is one. \<^verbatim>\<open>pure\<close> is \<open>Some\<close>.
\<close>

definition maybe_map_fx :: "('a \<Rightarrow> ('w, 'b) call) \<Rightarrow> 'a option \<Rightarrow> ('w, 'b option) call" where
  "maybe_map_fx f m w =
     (case m of
        None \<Rightarrow> (None, w)
      | Some a \<Rightarrow> (case f a w of (b, w') \<Rightarrow> (Some b, w')))"

definition maybe_bind_fx ::
  "'a option \<Rightarrow> ('a \<Rightarrow> ('w, 'b option) call) \<Rightarrow> ('w, 'b option) call" where
  "maybe_bind_fx m k w =
     (case m of
        None \<Rightarrow> (None, w)
      | Some a \<Rightarrow> k a w)"

section \<open>Lazy values\<close>

datatype value_status = deferred | ready

text \<open>
  A \<^verbatim>\<open>lazy<T>\<close> holds one member, \<^verbatim>\<open>std::shared_ptr<either<function<T>,T>> val\<close>.
  The objects the pointers refer to are the cells of a store: a shared pointer is the
  index of its cell, or \<open>None\<close> when it is empty (as after a move from the handle).
  Copies of a handle hold the same index. Cells are never taken out of the store; the
  release of a cell that no handle refers to any more is not modelled, as no operation
  can reach such a cell.

  A generator is a \<^verbatim>\<open>function<T>\<close>, a function object without arguments. What it may
  read and change when it is invoked, beyond returning a value, is the state of the
  program around it (the counter of the memoisation tests), the component \<open>world\<close> of
  the store, of any type \<open>'w\<close>. So a generator maps the world to its result and the new
  world, and whether and how often one was invoked shows in the world. Generators that
  themselves force other lazy values (those built by \<^verbatim>\<open>map\<close>, \<^verbatim>\<open>bind\<close> and
  \<^verbatim>\<open>append\<close>) are outside this model.
\<close>

type_synonym ('w, 't) generator = "'w \<Rightarrow> 't \<times> 'w"

record ('w, 't) store =
  cells :: "(('w, 't) generator, 't) either list"
  world :: 'w

record lazy =
  val :: "nat option"

text \<open>
  The constructor \<^verbatim>\<open>lazy(const function<T>& f)\<close>:
  \<^verbatim>\<open>val(new either<function<T>,T>(make_left<T>(f)))\<close>.
\<close>

definition lazy_ctor :: "('w, 't) generator \<Rightarrow> ('w, 't) store \<Rightarrow> lazy \<times> ('w, 't) store" where
  "lazy_ctor f s = (\<lparr>val = Some (length (cells s))\<rparr>, s\<lparr>cells := cells s @ [make_left f]\<rparr>)"

text \<open>The defaulted copy constructor copies the shared pointer.\<close>

definition lazy_copy :: "lazy \<Rightarrow> ('w, 't) store \<Rightarrow> lazy \<times> ('w, 't) store" where
  "lazy_copy l s = (\<lparr>val = val l\<rparr>, s)"

text \<open>
  The defaulted copy assignment assigns the member: the handle assigned to, \<open>this\<close>,
  afterwards holds the pointer of \<open>rhs\<close>.
\<close>

definition lazy_assign :: "lazy \<Rightarrow> lazy \<Rightarrow> ('w, 't) store \<Rightarrow> lazy \<times> ('w, 't) store" where
  "lazy_assign this rhs s = (this\<lparr>val := val rhs\<rparr>, s)"

text \<open>
  The defaulted move assignment moves the member: \<open>this\<close> takes the pointer of \<open>rhs\<close>,
  and the shared pointer moved from is left empty. The result is the pair of both handles.
\<close>

definition lazy_move_assign ::
  "lazy \<Rightarrow> lazy \<Rightarrow> ('w, 't) store \<Rightarrow> (lazy \<times> lazy) \<times> ('w, 't) store" where
  "lazy_move_assign this rhs s = ((this\<lparr>val := val rhs\<rparr>, rhs\<lparr>val := None\<rparr>), s)"

text \<open>\<^verbatim>\<open>*val\<close>: the cell a handle refers to; there is none behind an empty pointer.\<close>

definition cell_of :: "lazy \<Rightarrow> ('w, 't) store \<Rightarrow> (('w, 't) generator, 't) either option" where
  "cell_of l s =
     (case val l of
        None \<Rightarrow> None
      | Some a \<Rightarrow> if a < length (cells s) then Some (cells s ! a) else None)"

text \<open>
  \<^verbatim>\<open>force()\<close>: \<^verbatim>\<open>if(*val) return; *val = make_right<function<T>>(val->left()());\<close>
\<close>

definition force :: "lazy \<Rightarrow> ('w, 't) store \<Rightarrow> ('w, 't) store option" where
  "force l s =
     (case val l of
        None \<Rightarrow> None
      | Some a \<Rightarrow>
          if a < length (cells s) then
            (case cells s ! a of
               Right v \<Rightarrow> Some s
             | Left g \<Rightarrow>
                 (case g (world s) of
                    (r, w) \<Rightarrow> Some (s\<lparr>cells := (cells s)[a := make_right r], world := w\<rparr>)))
          else None)"

text \<open>
  \<^verbatim>\<open>operator*\<close>: \<^verbatim>\<open>force(); return **val;\<close>. Reading the right payload of a cell that
  holds a generator is not defined in the source and is an error here.
\<close>

definition lazy_deref :: "lazy \<Rightarrow> ('w, 't) store \<Rightarrow> ('t \<times> ('w, 't) store) option" where
  "lazy_deref l s =
     (case force l s of
        None \<Rightarrow> None
      | Some s' \<Rightarrow>
          (case cell_of l s' of
             Some (Right v) \<Rightarrow> Some (v, s')
           | Some (Left g) \<Rightarrow> None
           | None \<Rightarrow> None))"

text \<open>\<^verbatim>\<open>status()\<close>: \<^verbatim>\<open>if(*val) return value_status::ready; return value_status::deferred;\<close>\<close>

definition status :: "lazy \<Rightarrow> ('w, 't) store \<Rightarrow> value_status option" where
  "status l s =
     (case cell_of l s of
        None \<Rightarrow> None
      | Some (Right v) \<Rightarrow> Some ready
      | Some (Left g) \<Rightarrow> Some deferred)"

text \<open>
  \<^verbatim>\<open>defer(f, args...)\<close> copies the arguments into a tuple \<open>t\<close> and constructs a lazy value
  from the lambda \<^verbatim>\<open>[f,t]() { return apply(f, t); }\<close>. The function \<open>f\<close> is any
  function object, so it acts on the world as a generator does.
\<close>

definition lazy_defer ::
  "('args \<Rightarrow> ('w, 't) generator) \<Rightarrow> 'args \<Rightarrow> ('w, 't) store \<Rightarrow> lazy \<times> ('w, 't) store" where
  "lazy_defer f t s = lazy_ctor (\<lambda>w. f t w) s"

text \<open>\<^verbatim>\<open>monad<lazy<T>>::pure(t)\<close>: \<^verbatim>\<open>lazy<T>{[t](){ return t; }}\<close>.\<close>

definition lazy_pure :: "'t \<Rightarrow> ('w, 't) store \<Rightarrow> lazy \<times> ('w, 't) store" where
  "lazy_pure t s = lazy_ctor (\<lambda>w. (t, w)) s"

text \<open>
  \<^verbatim>\<open>operator==\<close>: \<^verbatim>\<open>return *l1 == *l2;\<close>. The language leaves open which operand is
  evaluated first; the flag \<open>l1_first\<close> is that choice.
\<close>

definition lazy_eq ::
  "bool \<Rightarrow> lazy \<Rightarrow> lazy \<Rightarrow> ('w, 't) store \<Rightarrow> (bool \<times> ('w, 't) store) option" where
  "lazy_eq l1_first l1 l2 s =
     (if l1_first then
        (case lazy_deref l1 s of
           None \<Rightarrow> None
         | Some (v1, s1) \<Rightarrow>
             (case lazy_deref l2 s1 of
                None \<Rightarrow> None
              | Some (v2, s2) \<Rightarrow> Some (v1 = v2, s2)))
      else
        (case lazy_deref l2 s of
           None \<Rightarrow> None
         | Some (v2, s2) \<Rightarrow>
             (case lazy_deref l1 s2 of
                None \<Rightarrow> None
              | Some (v1, s1) \<Rightarrow> Some (v1 = v2, s1))))"

text \<open>
  A program's use of lazy values, as far as it touches the store: it constructs cells and
  forces handles, in some order.
\<close>

datatype ('w, 't) action = Construct "('w, 't) generator" | Force lazy

fun perform :: "('w, 't) action \<Rightarrow> ('w, 't) store \<Rightarrow> ('w, 't) store option" where
  "perform (Construct g) s = Some (snd (lazy_ctor g s))"
| "perform (Force l) s = force l s"

fun perform_all :: "('w, 't) action list \<Rightarrow> ('w, 't) store \<Rightarrow> ('w, 't) store option" where
  "perform_all [] s = Some s"
| "perform_all (a # as) s =
     (case perform a s of
        None \<Rightarrow> None
      | Some s' \<Rightarrow> perform_all as s')"

text \<open>Whether an action forces the cell of the handle \<open>l\<close>, through \<open>l\<close> or a copy of it.\<close>

fun forces :: "lazy \<Rightarrow> ('w, 't) action \<Rightarrow> bool" where
  "forces l (Construct g) = False"
| "forces l (Force l') = (val l' = val l)"

section \<open>Properties of the either transformer\<close>

lemma aPure_eq: "aPure = Right"
  by (rule ext) (simp add: aPure_def)

lemmas eitherT_defs = eitherT_map_def eitherT_bind_def bind_helper_either_def
  bind_helper_lift_def bind_helper_eitherT_def eitherT_pure_def eitherT_ctor_def deref_def
  aPure_eq

lemmas function_defs = function_bind_def function_map_def function_pure_def

text \<open>The two laws of a base monad that the properties below rest on, for the function monad.\<close>

lemma function_left_identity: "function_bind (function_pure x) k = k x"
  by (simp add: function_defs)

lemma function_map_pure: "function_map g (function_pure x) = function_pure (g x)"
  by (simp add: function_defs)

text \<open>
  C9: wrapping a value of the transformed type and unwrapping it with \<^verbatim>\<open>operator*\<close> or
  \<^verbatim>\<open>operator->\<close> gives the value back unchanged, and wrapping what was unwrapped gives
  the transformer value back. Unwrapping a value constructed in place gives what the
  constructor of the transformed type made of the arguments.
\<close>

theorem eitherT_wrap_unwrap:
  "deref (eitherT_ctor m) = m \<and> arrow (eitherT_ctor m) = m \<and> eitherT_ctor (deref e) = e
   \<and> deref (eitherT_inplace mk args) = mk args"
  by (simp add: deref_def arrow_def eitherT_ctor_def eitherT_inplace_def)

text \<open>
  C1: over the function monad, let the transformer value \<open>e\<close> hold \<^verbatim>\<open>Right(10)\<close> at the
  parameter \<open>r\<close>. Binding it to a continuation that adds 1 gives \<^verbatim>\<open>Right(11)\<close> at \<open>r\<close>,
  whether the continuation returns a plain either (hoist), the base monad (lift) or the
  transformer; and \<^verbatim>\<open>Right(11)\<close> is what the transformer's \<^verbatim>\<open>pure(11)\<close> holds there.
\<close>

theorem bind_shapes_agree:
  fixes e :: "('p \<Rightarrow> ('l, int) either) eitherT"
  assumes "deref e r = make_right 10"
  shows "deref (eitherT_bind function_bind function_map function_pure e
            (Hoist (\<lambda>x. make_right (x + 1)))) r = make_right 11
       \<and> deref (eitherT_bind function_bind function_map function_pure e
            (Lift (\<lambda>x. function_pure (x + 1)))) r = make_right 11
       \<and> deref (eitherT_bind function_bind function_map function_pure e
            (Transformer (\<lambda>x. eitherT_pure function_pure (x + 1)))) r = make_right 11
       \<and> deref (eitherT_pure function_pure 11 :: ('p \<Rightarrow> ('l, int) either) eitherT) r
           = make_right 11"
  using assms by (simp add: eitherT_defs function_defs)

theorem bind_shapes_agree_witness:
  "deref (eitherT_pure function_pure 10 :: (int \<Rightarrow> (string, int) either) eitherT) 0
       = make_right 10
   \<and> deref (eitherT_bind function_bind function_map function_pure
        (eitherT_pure function_pure 10 :: (int \<Rightarrow> (string, int) either) eitherT)
        (Hoist (\<lambda>x. make_right (x + 1)))) 0 = make_right 11
   \<and> deref (eitherT_bind function_bind function_map function_pure
        (eitherT_pure function_pure 10 :: (int \<Rightarrow> (string, int) either) eitherT)
        (Lift (\<lambda>x. function_pure (x + 1)))) 0 = make_right 11
   \<and> deref (eitherT_bind function_bind function_map function_pure
        (eitherT_pure function_pure 10 :: (int \<Rightarrow> (string, int) either) eitherT)
        (Transformer (\<lambda>x. eitherT_pure function_pure (x + 1)))) 0 = make_right 11"
proof -
  have h: "deref (eitherT_pure function_pure 10 :: (int \<Rightarrow> (string, int) either) eitherT) 0
      = make_right 10"
    by (simp add: eitherT_pure_def eitherT_ctor_def deref_def function_pure_def)
  from bind_shapes_agree [OF h] h show ?thesis by simp
qed

text \<open>
  Without the calls: for a base monad with the left identity law whose map commutes with
  \<^verbatim>\<open>pure\<close>, \<^verbatim>\<open>map\<close> and \<^verbatim>\<open>bind\<close> of the transformer value that holds \<^verbatim>\<open>Left(l)\<close>
  are that value, and over the function monad the same holds at every parameter.
\<close>

lemma left_short_circuit_value:
  fixes e :: "('p \<Rightarrow> ('l, 't) either) eitherT"
  assumes left_identity: "\<And>x k. bindM (pureT x) k = k x"
    and map_pure: "\<And>g x. mapM g (pureT x) = pureU (g x)"
  shows "eitherT_map mapM f (eitherT_ctor (pureT (make_left l))) = eitherT_ctor (pureU (make_left l))
       \<and> eitherT_bind bindM mapM' pureU (eitherT_ctor (pureT (make_left l))) k
           = eitherT_ctor (pureU (make_left l))
       \<and> (deref e r = make_left l' \<longrightarrow>
            deref (eitherT_map function_map f' e) r = make_left l'
          \<and> deref (eitherT_bind function_bind function_map function_pure e k') r = make_left l')"
proof -
  have "eitherT_map mapM f (eitherT_ctor (pureT (make_left l))) = eitherT_ctor (pureU (make_left l))"
    by (simp add: eitherT_defs map_pure)
  moreover have "eitherT_bind bindM mapM' pureU (eitherT_ctor (pureT (make_left l))) k
           = eitherT_ctor (pureU (make_left l))"
    by (cases k) (simp_all add: eitherT_defs left_identity)
  moreover have "deref (eitherT_map function_map f' e) r = make_left l'"
    if "deref e r = make_left l'"
    using that by (simp add: eitherT_defs function_defs)
  moreover have "deref (eitherT_bind function_bind function_map function_pure e k') r = make_left l'"
    if "deref e r = make_left l'"
    using that by (cases k') (simp_all add: eitherT_defs function_defs)
  ultimately show ?thesis by blast
qed

text \<open>
  Without the calls: the lift case of bind maps \<^verbatim>\<open>Right\<close> over \<open>f t\<close> on a
  \<^verbatim>\<open>Right(t)\<close> and returns \<^verbatim>\<open>pure(Left(l))\<close> on a \<^verbatim>\<open>Left(l)\<close>.
\<close>

lemma lift_wraps_right_value:
  fixes e :: "('p \<Rightarrow> ('l, 't) either) eitherT"
  assumes left_identity: "\<And>x k. bindM (pureT x) k = k x"
  shows "eitherT_bind bindM mapM pureU (eitherT_ctor (pureT (make_right t))) (Lift f)
           = eitherT_ctor (mapM make_right (f t))
       \<and> eitherT_bind bindM mapM pureU (eitherT_ctor (pureT (make_left l))) (Lift f)
           = eitherT_ctor (pureU (make_left l))
       \<and> (deref e r = make_right t' \<longrightarrow>
            deref (eitherT_bind function_bind function_map function_pure e (Lift f')) r
              = make_right (f' t' r))
       \<and> (deref e r = make_left l' \<longrightarrow>
            deref (eitherT_bind function_bind function_map function_pure e (Lift f')) r
              = make_left l')"
  by (simp add: eitherT_defs function_defs left_identity)

subsection \<open>With the calls of the function objects\<close>

lemmas eitherT_fx_defs = eitherT_map_fx_def eitherT_bind_fx_def bind_helper_either_fx_def
  bind_helper_lift_fx_def bind_helper_eitherT_fx_def eitherT_ctor_def deref_def aPure_eq

lemmas function_fx_defs = function_bind_fx_def function_map_fx_def function_pure_fx_def

text \<open>The laws of a base monad that calls the function at once, for \<^verbatim>\<open>maybe\<close>.\<close>

lemma maybe_left_identity_fx: "maybe_bind_fx (Some x) k w = k x w"
  by (simp add: maybe_bind_fx_def)

lemma maybe_map_pure_fx: "maybe_map_fx g (Some x) w = (case g x w of (y, w') \<Rightarrow> (Some y, w'))"
  by (simp add: maybe_map_fx_def)

text \<open>
  With functions that change nothing, and a base monad whose map and bind change nothing
  themselves, the operations with calls return what the operations above return, and
  leave the world as it is.
\<close>

lemma either_map_fx_effect_free:
  "either_map_fx (\<lambda>t w. (f t, w)) x w = (either_map f x, w)"
  by (cases x) simp_all

lemma eitherT_map_fx_effect_free:
  "eitherT_map_fx (\<lambda>g m w. (mapM (\<lambda>x. fst (g x w)) m, w)) (\<lambda>t w. (f t, w)) e w
     = (eitherT_map mapM f e, w)"
  by (simp add: eitherT_map_fx_def eitherT_map_def either_map_fx_effect_free)

lemma bind_helper_eitherT_fx_effect_free:
  "bind_helper_eitherT_fx (\<lambda>m k w. (bindM m (\<lambda>x. fst (k x w)), w)) pureM e (\<lambda>t w. (f t, w)) w
     = (bind_helper_eitherT bindM pureM e f, w)"
proof -
  have "(\<lambda>x. fst (case x of Right t \<Rightarrow> (case (f t, w) of (r, w2) \<Rightarrow> (deref r, w2))
                          | Left l \<Rightarrow> (pureM (make_left l), w)))
      = (\<lambda>x. case x of Right t \<Rightarrow> deref (f t) | Left l \<Rightarrow> pureM (make_left l))"
    by (rule ext) (simp split: either.split)
  then show ?thesis
    by (simp add: bind_helper_eitherT_fx_def bind_helper_eitherT_def)
qed

lemma bind_helper_lift_fx_effect_free:
  "bind_helper_lift_fx (\<lambda>m k w. (bindM m (\<lambda>x. fst (k x w)), w))
       (\<lambda>g m w. (mapM (\<lambda>x. fst (g x w)) m, w)) pureM e (\<lambda>t w. (f t, w)) w
     = (bind_helper_lift bindM mapM pureM e f, w)"
proof -
  have "(\<lambda>x. fst (case x of
                    Right t \<Rightarrow> (case (f t, w) of
                       (mu, w2) \<Rightarrow> (mapM (\<lambda>x. fst (aPure x, w2)) mu, w2))
                  | Left l \<Rightarrow> (pureM (make_left l), w)))
      = (\<lambda>x. case x of Right t \<Rightarrow> mapM aPure (f t) | Left l \<Rightarrow> pureM (make_left l))"
    by (rule ext) (simp split: either.split)
  then show ?thesis
    by (simp add: bind_helper_lift_fx_def bind_helper_lift_def)
qed

lemma bind_helper_either_fx_effect_free:
  "bind_helper_either_fx (\<lambda>m k w. (bindM m (\<lambda>x. fst (k x w)), w)) pureM e (\<lambda>t w. (f t, w)) w
     = (bind_helper_either bindM pureM e f, w)"
  using bind_helper_eitherT_fx_effect_free
    [of bindM pureM e "\<lambda>t. eitherT_ctor (pureM (either_bind (make_right t) f))" w]
  by (simp add: bind_helper_either_fx_def bind_helper_either_def)

text \<open>
  C2: on a \<^verbatim>\<open>Left\<close> neither \<^verbatim>\<open>map\<close> nor \<^verbatim>\<open>bind\<close> invokes the function, and the
  \<^verbatim>\<open>Left\<close> passes unchanged. Let the base monad call the function it is given at once
  and just once on a value embedded with \<^verbatim>\<open>pure\<close>. For the transformer value that holds
  \<^verbatim>\<open>Left(l)\<close>, embedded with \<^verbatim>\<open>pure\<close>, \<^verbatim>\<open>map(f, e)\<close> and \<^verbatim>\<open>bind(e, k)\<close> return that
  \<^verbatim>\<open>Left(l)\<close> embedded with \<^verbatim>\<open>pure\<close> and leave the world as it was, for every function
  \<open>f\<close> and every continuation \<open>k\<close> of any of the three shapes, whatever they would do
  to the world: they are not invoked. Over the function monad, \<^verbatim>\<open>map\<close> and \<^verbatim>\<open>bind\<close>
  themselves change nothing, and the function object they return, applied to a parameter
  \<open>p\<close> at which \<open>e\<close> returns \<^verbatim>\<open>Left(l')\<close>, returns \<^verbatim>\<open>Left(l')\<close> and leaves the world
  as \<open>e\<close> alone leaves it, whatever \<open>e\<close> returns elsewhere.
\<close>

theorem left_short_circuit:
  fixes e :: "('p \<Rightarrow> ('v, ('l, 't) either) call) eitherT"
  assumes left_identity: "\<And>x k w. bindM (pureT x) k w = k x w"
    and map_pure: "\<And>g x w. mapM g (pureT x) w = (case g x w of (y, w') \<Rightarrow> (pureU y, w'))"
  shows "eitherT_map_fx mapM f (eitherT_ctor (pureT (make_left l))) w
           = (eitherT_ctor (pureU (make_left l)), w)
       \<and> eitherT_bind_fx bindM mapM' pureU (eitherT_ctor (pureT (make_left l))) k w
           = (eitherT_ctor (pureU (make_left l)), w)
       \<and> snd (eitherT_map_fx function_map_fx f' e v) = v
       \<and> snd (eitherT_bind_fx function_bind_fx function_map_fx function_pure_fx e k' v) = v
       \<and> (deref e p v1 = (make_left l', v2) \<longrightarrow>
            deref (fst (eitherT_map_fx function_map_fx f' e v)) p v1 = (make_left l', v2)
          \<and> deref (fst (eitherT_bind_fx function_bind_fx function_map_fx function_pure_fx e k' v))
              p v1 = (make_left l', v2))"
proof -
  have "eitherT_map_fx mapM f (eitherT_ctor (pureT (make_left l))) w
           = (eitherT_ctor (pureU (make_left l)), w)"
    by (simp add: eitherT_fx_defs map_pure)
  moreover have "eitherT_bind_fx bindM mapM' pureU (eitherT_ctor (pureT (make_left l))) k w
           = (eitherT_ctor (pureU (make_left l)), w)"
    by (cases k) (simp_all add: eitherT_fx_defs left_identity)
  moreover have "snd (eitherT_map_fx function_map_fx f' e v) = v"
    by (simp add: eitherT_fx_defs function_fx_defs)
  moreover have "snd (eitherT_bind_fx function_bind_fx function_map_fx function_pure_fx e k' v) = v"
    by (cases k') (simp_all add: eitherT_fx_defs function_fx_defs)
  moreover have "deref (fst (eitherT_map_fx function_map_fx f' e v)) p v1 = (make_left l', v2)"
    if "deref e p v1 = (make_left l', v2)"
    using that by (simp add: eitherT_fx_defs function_fx_defs)
  moreover have "deref (fst (eitherT_bind_fx function_bind_fx function_map_fx function_pure_fx e k' v))
              p v1 = (make_left l', v2)"
    if "deref e p v1 = (make_left l', v2)"
    using that by (cases k') (simp_all add: eitherT_fx_defs function_fx_defs)
  ultimately show ?thesis by blast
qed

theorem left_short_circuit_witness:
  "eitherT_map_fx maybe_map_fx (\<lambda>(x::int) (w::nat). (x + 1, Suc w))
        (eitherT_ctor (Some (make_left ''no'' :: (string, int) either))) 0
       = (eitherT_ctor (Some (make_left ''no'')), 0)
   \<and> eitherT_bind_fx maybe_bind_fx maybe_map_fx Some
        (eitherT_ctor (Some (make_left ''no'' :: (string, int) either)))
        (Hoist_fx (\<lambda>(x::int) (w::nat). (make_right (x + 1), Suc w))) 0
       = (eitherT_ctor (Some (make_left ''no'' :: (string, int) either)), 0)
   \<and> snd (eitherT_map_fx function_map_fx (\<lambda>(x::int) (w::nat). (x + 1, Suc w))
        (eitherT_ctor (\<lambda>(p::int) (w::nat).
           (if p = 0 then make_left ''zero'' else make_right p, w))) 0) = 0
   \<and> deref (eitherT_ctor (\<lambda>(p::int) (w::nat).
           (if p = 0 then make_left ''zero'' else make_right p, w))) 0 5
       = (make_left ''zero'' :: (string, int) either, 5)
   \<and> deref (fst (eitherT_map_fx function_map_fx (\<lambda>(x::int) (w::nat). (x + 1, Suc w))
        (eitherT_ctor (\<lambda>(p::int) (w::nat).
           (if p = 0 then make_left ''zero'' else make_right p, w))) 0)) 0 5
       = (make_left ''zero'' :: (string, int) either, 5)
   \<and> deref (fst (eitherT_bind_fx function_bind_fx function_map_fx function_pure_fx
        (eitherT_ctor (\<lambda>(p::int) (w::nat).
           (if p = 0 then make_left ''zero'' else make_right p, w)))
        (Transformer_fx (\<lambda>(x::int) (w::nat).
           (eitherT_ctor (function_pure_fx (make_right (x + 1))), Suc w))) 0)) 0 5
       = (make_left ''zero'' :: (string, int) either, 5)
   \<and> deref (fst (eitherT_map_fx function_map_fx (\<lambda>(x::int) (w::nat). (x + 1, Suc w))
        (eitherT_ctor (\<lambda>(p::int) (w::nat).
           (if p = 0 then make_left ''zero'' else make_right p, w))) 0)) 4 5
       = (make_right 5 :: (string, int) either, 6)"
proof -
  let ?f = "\<lambda>(x::int) (w::nat). (x + 1, Suc w)"
  let ?e = "eitherT_ctor (\<lambda>(p::int) (w::nat).
      (if p = 0 then make_left ''zero'' else make_right p :: (string, int) either, w))"
  let ?k = "Hoist_fx (\<lambda>(x::int) (w::nat). (make_right (x + 1), Suc w))
      :: (int, string, int, int option, (string, int) either option, nat) continuation_fx"
  let ?k' = "Transformer_fx (\<lambda>(x::int) (w::nat).
      (eitherT_ctor (function_pure_fx (make_right (x + 1))), Suc w))
      :: (int, string, int, int \<Rightarrow> (nat, int) call, int \<Rightarrow> (nat, (string, int) either) call, nat)
        continuation_fx"
  have h: "deref ?e 0 5 = (make_left ''zero'', 5)"
    by (simp add: deref_def eitherT_ctor_def)
  have invoked: "deref (fst (eitherT_map_fx function_map_fx ?f ?e 0)) 4 5 = (make_right 5, 6)"
    by (simp add: eitherT_map_fx_def function_map_fx_def deref_def eitherT_ctor_def)
  note w = left_short_circuit [where bindM = maybe_bind_fx and pureT = Some
      and mapM = maybe_map_fx and pureU = Some and mapM' = maybe_map_fx
      and f = ?f and l = "''no''" and w = 0 and k = ?k
      and e = ?e and f' = ?f and k' = ?k' and v = 0 and p = 0 and ?v1.0 = 5 and ?v2.0 = 5
      and l' = "''zero''",
      OF maybe_left_identity_fx maybe_map_pure_fx]
  show ?thesis
    using w h invoked by simp
qed

text \<open>
  C3: the lift case of bind, for a base monad that calls the function it is given at once
  and just once on a value embedded with \<^verbatim>\<open>pure\<close>. When the bound transformer value
  holds \<^verbatim>\<open>Right(t)\<close>, \<open>f\<close> is called once, on \<open>t\<close>, and the result is what it returned
  with \<^verbatim>\<open>Right\<close> mapped over it. When it holds \<^verbatim>\<open>Left(l)\<close>, the result is the base
  monad's \<^verbatim>\<open>pure(Left(l))\<close> and the world is as it was, whatever \<open>f\<close> would do to it:
  \<open>f\<close> is not invoked. Over the function monad, bind itself changes nothing; the
  function object it returns, applied to \<open>p\<close>, where \<open>e\<close> returns \<^verbatim>\<open>Right(t')\<close> calls
  \<open>f'\<close> on \<open>t'\<close>, applies what it returned to \<open>p\<close> and returns \<^verbatim>\<open>Right\<close> of the value
  \<open>u\<close> produced, and where \<open>e\<close> returns \<^verbatim>\<open>Left(l')\<close> returns \<^verbatim>\<open>Left(l')\<close> and leaves
  the world as \<open>e\<close> alone leaves it.
\<close>

theorem lift_wraps_right:
  fixes e :: "('p \<Rightarrow> ('v, ('l, 't) either) call) eitherT"
  assumes left_identity: "\<And>x k w. bindM (pureT x) k w = k x w"
  shows "eitherT_bind_fx bindM mapM pureU (eitherT_ctor (pureT (make_right t))) (Lift_fx f) w
           = (case f t w of
                (mu, w1) \<Rightarrow>
                  (case mapM (\<lambda>u w3. (make_right u, w3)) mu w1 of
                     (m, w2) \<Rightarrow> (eitherT_ctor m, w2)))
       \<and> eitherT_bind_fx bindM mapM pureU (eitherT_ctor (pureT (make_left l))) (Lift_fx f) w
           = (eitherT_ctor (pureU (make_left l)), w)
       \<and> snd (eitherT_bind_fx function_bind_fx function_map_fx function_pure_fx e (Lift_fx f') v) = v
       \<and> (deref e p v1 = (make_right t', v2) \<and> f' t' v2 = (mu', v3) \<and> mu' p v3 = (u, v4) \<longrightarrow>
            deref (fst (eitherT_bind_fx function_bind_fx function_map_fx function_pure_fx e
              (Lift_fx f') v)) p v1 = (make_right u, v4))
       \<and> (deref e p v1 = (make_left l', v2) \<longrightarrow>
            deref (fst (eitherT_bind_fx function_bind_fx function_map_fx function_pure_fx e
              (Lift_fx f') v)) p v1 = (make_left l', v2))"
  by (simp add: eitherT_fx_defs function_fx_defs left_identity split: prod.split)

theorem lift_wraps_right_witness:
  "eitherT_bind_fx maybe_bind_fx maybe_map_fx Some
        (eitherT_ctor (Some (make_right 10 :: (string, int) either)))
        (Lift_fx (\<lambda>(x::int) (w::nat). (Some (x + 1), Suc w))) 0
       = (eitherT_ctor (Some (make_right 11 :: (string, int) either)), 1)
   \<and> eitherT_bind_fx maybe_bind_fx maybe_map_fx Some
        (eitherT_ctor (Some (make_left ''no'' :: (string, int) either)))
        (Lift_fx (\<lambda>(x::int) (w::nat). (Some (x + 1), Suc w))) 0
       = (eitherT_ctor (Some (make_left ''no'' :: (string, int) either)), 0)
   \<and> snd (eitherT_bind_fx function_bind_fx function_map_fx function_pure_fx
        (eitherT_ctor (\<lambda>(p::int) (w::nat).
           (if p = 0 then make_left ''zero'' else make_right p :: (string, int) either, w)))
        (Lift_fx (\<lambda>(x::int) (w::nat). (\<lambda>(p::int) (w'::nat). (x + p, w'), Suc w))) 0) = 0
   \<and> deref (fst (eitherT_bind_fx function_bind_fx function_map_fx function_pure_fx
        (eitherT_ctor (\<lambda>(p::int) (w::nat).
           (if p = 0 then make_left ''zero'' else make_right p :: (string, int) either, w)))
        (Lift_fx (\<lambda>(x::int) (w::nat). (\<lambda>(p::int) (w'::nat). (x + p, w'), Suc w))) 0)) 4 5
       = (make_right 8, 6)
   \<and> deref (fst (eitherT_bind_fx function_bind_fx function_map_fx function_pure_fx
        (eitherT_ctor (\<lambda>(p::int) (w::nat).
           (if p = 0 then make_left ''zero'' else make_right p :: (string, int) either, w)))
        (Lift_fx (\<lambda>(x::int) (w::nat). (\<lambda>(p::int) (w'::nat). (x + p, w'), Suc w))) 0)) 0 5
       = (make_left ''zero'', 5)"
proof -
  let ?e = "eitherT_ctor (\<lambda>(p::int) (w::nat).
      (if p = 0 then make_left ''zero'' else make_right p :: (string, int) either, w))"
  let ?f = "\<lambda>(x::int) (w::nat). (Some (x + 1), Suc w)"
  let ?f' = "\<lambda>(x::int) (w::nat). (\<lambda>(p::int) (w'::nat). (x + p, w'), Suc w)"
  have r: "deref ?e 4 5 = (make_right 4, 5)" and l: "deref ?e 0 5 = (make_left ''zero'', 5)"
    by (simp_all add: deref_def eitherT_ctor_def)
  have c: "?f' 4 5 = (\<lambda>(p::int) (w'::nat). (4 + p, w'), 6)"
    and a: "(\<lambda>(p::int) (w'::nat). (4 + p, w')) 4 6 = (8, 6)"
    by simp_all
  note w = lift_wraps_right [where bindM = maybe_bind_fx and pureT = Some
      and mapM = maybe_map_fx and pureU = Some and t = 10 and l = "''no''" and f = ?f
      and w = 0 and e = ?e and f' = ?f' and v = 0 and ?v1.0 = 5 and l' = "''zero''"
      and t' = 4 and mu' = "\<lambda>(p::int) (w'::nat). (4 + p, w')" and u = 8 and ?v3.0 = 6
      and ?v4.0 = 6,
      OF maybe_left_identity_fx]
  have "eitherT_bind_fx maybe_bind_fx maybe_map_fx Some
        (eitherT_ctor (Some (make_right 10 :: (string, int) either))) (Lift_fx ?f) 0
       = (eitherT_ctor (Some (make_right 11 :: (string, int) either)), 1)"
    using w [where p = 4 and ?v2.0 = 5] by (simp add: maybe_map_fx_def)
  moreover have "deref (fst (eitherT_bind_fx function_bind_fx function_map_fx function_pure_fx
        ?e (Lift_fx ?f') 0)) 4 5 = (make_right 8, 6)"
    using w [where p = 4 and ?v2.0 = 5] r c a by simp
  moreover have "deref (fst (eitherT_bind_fx function_bind_fx function_map_fx function_pure_fx
        ?e (Lift_fx ?f') 0)) 0 5 = (make_left ''zero'', 5)"
    using w [where p = 0 and ?v2.0 = 5] l by simp
  ultimately show ?thesis
    using w [where p = 0 and ?v2.0 = 5] by simp
qed

subsection \<open>Alternatives and folds\<close>

text \<open>
  C4: \<^verbatim>\<open>fail()\<close> is \<^verbatim>\<open>Left\<close> of the identity of the monoid, embedded with the base monad's
  \<^verbatim>\<open>pure\<close>. For a base monad with the left identity law whose \<^verbatim>\<open>liftM\<close> commutes with
  \<^verbatim>\<open>pure\<close>: \<^verbatim>\<open>orDo\<close> of a first alternative that holds \<^verbatim>\<open>Right(a)\<close> is that alternative,
  whatever the second is; of a \<^verbatim>\<open>Left\<close> and a \<^verbatim>\<open>Right(b)\<close> it is \<^verbatim>\<open>Right(b)\<close>; of two
  \<^verbatim>\<open>Left\<close> values it is \<^verbatim>\<open>Left\<close> of the monoid's append of the two payloads, that of the
  first alternative first. Over the function monad this holds at every parameter for any
  two alternatives; and with the concatenation of strings, the alternatives that fail
  with \<^verbatim>\<open>"a"\<close> and with \<^verbatim>\<open>"b"\<close> give the failure with \<^verbatim>\<open>"ab"\<close>.
  (\<^verbatim>\<open>fail\<close> takes no argument; a failure with a payload is the transformer value that
  holds \<^verbatim>\<open>Left\<close> of the payload.)
\<close>

theorem monoidA_fail_orDo:
  fixes e1 e2 :: "('p \<Rightarrow> ('l, 't) either) eitherT"
  assumes left_identity: "\<And>x k. bindM (pureM x) k = k x"
    and lift_pure: "\<And>g x. liftM g (pureM x) = pureM (g x)"
  shows "eitherT_fail pureM monoid_id = eitherT_ctor (pureM (make_left monoid_id))
       \<and> orDo bindM pureM liftM monoid_append (eitherT_ctor (pureM (make_right a))) d2
           = eitherT_ctor (pureM (make_right a))
       \<and> orDo bindM pureM liftM monoid_append (eitherT_ctor (pureM (make_left l1)))
             (eitherT_ctor (pureM (make_right b)))
           = eitherT_ctor (pureM (make_right b))
       \<and> orDo bindM pureM liftM monoid_append (eitherT_ctor (pureM (make_left l1)))
             (eitherT_ctor (pureM (make_left l2)))
           = eitherT_ctor (pureM (make_left (monoid_append l1 l2)))
       \<and> deref (orDo function_bind function_pure function_map app e1 e2) r =
           (case deref e1 r of
              Right a \<Rightarrow> make_right a
            | Left l1 \<Rightarrow>
                (case deref e2 r of
                   Right b \<Rightarrow> make_right b
                 | Left l2 \<Rightarrow> make_left (app l1 l2)))
       \<and> orDo function_bind function_pure function_map (@)
             (eitherT_ctor (function_pure (make_left ''a'')))
             (eitherT_ctor (function_pure (make_left ''b'')))
           = eitherT_ctor (function_pure (make_left ''ab'') :: 'q \<Rightarrow> (string, 'v) either)"
  by (simp add: orDo_def eitherT_fail_def eitherT_defs function_defs left_identity lift_pure
      split: either.splits)

theorem monoidA_fail_orDo_witness:
  "eitherT_fail function_pure ''''
       = eitherT_ctor (function_pure (make_left '''') :: int \<Rightarrow> (string, int) either)
   \<and> orDo function_bind function_pure function_map (@)
        (eitherT_ctor (function_pure (make_left ''a'')))
        (eitherT_ctor (function_pure (make_left ''b'')))
       = eitherT_ctor (function_pure (make_left ''ab'') :: int \<Rightarrow> (string, int) either)
   \<and> orDo function_bind function_pure function_map (@)
        (eitherT_ctor (function_pure (make_right 5)))
        (eitherT_ctor (function_pure (make_left ''b'')))
       = eitherT_ctor (function_pure (make_right 5) :: int \<Rightarrow> (string, int) either)
   \<and> orDo function_bind function_pure function_map (@)
        (eitherT_ctor (function_pure (make_left ''a'')))
        (eitherT_ctor (function_pure (make_right 5)))
       = eitherT_ctor (function_pure (make_right 5) :: int \<Rightarrow> (string, int) either)"
proof -
  note w = monoidA_fail_orDo [where ?'q = int and ?'v = int
        and bindM = function_bind and pureM = function_pure
        and liftM = function_map and monoid_append = "(@)" and monoid_id = "''''"
        and a = "5::int" and b = "5::int" and ?l1.0 = "''a''" and ?l2.0 = "''b''"
        and ?d2.0 = "eitherT_ctor (function_pure (make_left ''b''))
          :: (int \<Rightarrow> (string, int) either) eitherT"
        and ?e1.0 = "eitherT_ctor (function_pure (make_left ''a''))
          :: (int \<Rightarrow> (string, int) either) eitherT"
        and ?e2.0 = "eitherT_ctor (function_pure (make_left ''b''))
          :: (int \<Rightarrow> (string, int) either) eitherT"
        and r = "0::int" and app = "(@)",
        OF function_left_identity function_map_pure]
  show ?thesis using w by simp
qed

text \<open>
  With the comma read into the call, the right fold over a list does fold the right
  payloads only, the function taking the payload first.
\<close>

lemma eitherT_foldr_rights:
  "eitherT_foldr list_foldr f z (eitherT_ctor es) = list_foldr f z (rights es)"
proof -
  have "list_foldr (eitherT_foldr_lambda f) z es = list_foldr f z (rights es)"
    by (induction es rule: rights.induct) (simp_all add: eitherT_foldr_lambda_def)
  then show ?thesis
    by (simp add: eitherT_foldr_def deref_def eitherT_ctor_def)
qed

text \<open>
  C5: the left fold does not fold the right payloads of the wrapped value. Its lambda
  takes the element first, and a left fold hands it the accumulator first: over a list of
  one element, it is the accumulator \<open>z\<close> whose case is tested, \<open>f\<close> is given the
  element \<open>e\<close> as its first argument, and when \<open>z\<close> is a \<^verbatim>\<open>Left\<close> the result is the
  element. So a \<^verbatim>\<open>Left\<close> element is not skipped: from \<^verbatim>\<open>Right(0)\<close> over the list of
  the one element \<^verbatim>\<open>Left("x")\<close>, the fold with the function that returns its accumulator
  gives \<^verbatim>\<open>Left("x")\<close>, not \<^verbatim>\<open>Right(0)\<close>.
\<close>

theorem eitherT_foldl_swaps_roles:
  "eitherT_foldl list_foldl f z (eitherT_ctor [e]) = (case z of Right t \<Rightarrow> f e t | Left l \<Rightarrow> e)
   \<and> eitherT_foldl list_foldl (\<lambda>u t. u) (make_right 0) (eitherT_ctor [make_left ''x''])
       = (make_left ''x'' :: (string, int) either)"
  by (simp add: eitherT_foldl_def eitherT_foldl_lambda_def deref_def eitherT_ctor_def)

section \<open>Properties of lazy values\<close>

subsection \<open>Cells and handles\<close>

lemma cell_of_Some:
  "cell_of l s = Some c \<longleftrightarrow> (\<exists>a. val l = Some a \<and> a < length (cells s) \<and> cells s ! a = c)"
  by (auto simp: cell_of_def split: option.splits)

lemma cell_of_shared: "val l' = val l \<Longrightarrow> cell_of l' s = cell_of l s"
  by (simp add: cell_of_def)

lemma force_shared: "val l' = val l \<Longrightarrow> force l' s = force l s"
  by (simp add: force_def)

lemma lazy_deref_shared:
  fixes s :: "('w, 't) store"
  assumes "val l' = val l"
  shows "lazy_deref l' s = lazy_deref l s"
proof -
  have c: "cell_of l' = (cell_of l :: ('w, 't) store \<Rightarrow> _)"
    by (rule ext) (simp add: cell_of_def assms)
  have f: "force l' s = force l s"
    using assms by (rule force_shared)
  show ?thesis
    unfolding lazy_deref_def c f ..
qed

lemma status_deferred: "status l s = Some deferred \<longleftrightarrow> (\<exists>g. cell_of l s = Some (Left g))"
  by (auto simp: status_def split: option.splits either.splits)

lemma status_ready: "status l s = Some ready \<longleftrightarrow> (\<exists>v. cell_of l s = Some (Right v))"
  by (auto simp: status_def split: option.splits either.splits)

subsection \<open>Forcing\<close>

lemma force_ready:
  assumes "cell_of l s = Some (Right v)"
  shows "force l s = Some s"
  using assms by (auto simp: cell_of_Some force_def)

lemma force_deferred:
  assumes "cell_of l s = Some (Left g)" and "val l = Some a"
  shows "force l s = Some (s\<lparr>cells := (cells s)[a := Right (fst (g (world s)))],
            world := snd (g (world s))\<rparr>)"
  using assms by (auto simp: cell_of_Some force_def split: prod.splits)

lemma cell_of_after_force:
  assumes "cell_of l s = Some (Left g)" and "force l s = Some s'"
  shows "cell_of l s' = Some (Right (fst (g (world s))))"
  using assms by (auto simp: cell_of_Some force_def split: prod.splits)

lemma lazy_deref_ready:
  assumes "cell_of l s = Some (Right v)"
  shows "lazy_deref l s = Some (v, s)"
  using assms by (simp add: lazy_deref_def force_ready)

lemma lazy_deref_deferred:
  assumes "cell_of l s = Some (Left g)" and "val l = Some a"
  shows "lazy_deref l s = Some (fst (g (world s)),
           s\<lparr>cells := (cells s)[a := Right (fst (g (world s)))], world := snd (g (world s))\<rparr>)"
proof -
  let ?s' = "s\<lparr>cells := (cells s)[a := Right (fst (g (world s)))], world := snd (g (world s))\<rparr>"
  have f: "force l s = Some ?s'"
    using assms by (rule force_deferred)
  have "cell_of l ?s' = Some (Right (fst (g (world s))))"
    using assms(1) f by (rule cell_of_after_force)
  with f show ?thesis by (simp add: lazy_deref_def)
qed

text \<open>Every handle of a cell can be forced, and the cell is ready afterwards.\<close>

lemma force_makes_ready:
  assumes "cell_of l s = Some c"
  shows "\<exists>v s'. force l s = Some s' \<and> cell_of l s' = Some (Right v) \<and> lazy_deref l s = Some (v, s')"
proof (cases c)
  case (Right v)
  with assms have "force l s = Some s" and "lazy_deref l s = Some (v, s)"
    by (simp_all add: force_ready lazy_deref_ready)
  with assms Right show ?thesis by simp
next
  case (Left g)
  from assms obtain a where a: "val l = Some a"
    unfolding cell_of_Some by blast
  let ?s' = "s\<lparr>cells := (cells s)[a := Right (fst (g (world s)))], world := snd (g (world s))\<rparr>"
  from assms Left a have f: "force l s = Some ?s'"
    and d: "lazy_deref l s = Some (fst (g (world s)), ?s')"
    by (simp_all add: force_deferred lazy_deref_deferred)
  from assms Left f have "cell_of l ?s' = Some (Right (fst (g (world s))))"
    using cell_of_after_force [of l s g ?s'] by simp
  with f d show ?thesis by simp
qed

subsection \<open>What other operations leave alone\<close>

lemma cell_of_lazy_ctor:
  "cell_of (fst (lazy_ctor g s)) (snd (lazy_ctor g s)) = Some (Left g)"
  by (simp add: lazy_ctor_def cell_of_def)

lemma world_lazy_ctor: "world (snd (lazy_ctor g s)) = world s"
  by (simp add: lazy_ctor_def)

lemma construct_keeps_cell:
  assumes "cell_of l s = Some c"
  shows "cell_of l (snd (lazy_ctor g s)) = Some c"
proof -
  from assms obtain a where "val l = Some a" and "a < length (cells s)" and "cells s ! a = c"
    unfolding cell_of_Some by blast
  then show ?thesis
    by (simp add: cell_of_def lazy_ctor_def nth_append)
qed

lemma force_keeps_ready:
  assumes "cell_of l s = Some (Right v)" and "force l' s = Some s'"
  shows "cell_of l s' = Some (Right v)"
proof -
  from assms(2) obtain c where c: "cell_of l' s = Some c"
    by (auto simp: force_def cell_of_def split: option.splits if_splits)
  show ?thesis
  proof (cases c)
    case (Right u)
    with c have "force l' s = Some s" by (simp add: force_ready)
    with assms(2) have "s' = s" by simp
    with assms(1) show ?thesis by simp
  next
    case (Left g)
    from c obtain b where b: "val l' = Some b" and cb: "cells s ! b = c"
      unfolding cell_of_Some by blast
    from assms(1) obtain a where a: "val l = Some a" and al: "a < length (cells s)"
      and av: "cells s ! a = Right v"
      unfolding cell_of_Some by blast
    from cb Left av have ab: "b \<noteq> a" by auto
    have "force l' s = Some (s\<lparr>cells := (cells s)[b := Right (fst (g (world s)))],
            world := snd (g (world s))\<rparr>)"
      using c Left b by (simp add: force_deferred)
    with assms(2) have s': "s' = s\<lparr>cells := (cells s)[b := Right (fst (g (world s)))],
            world := snd (g (world s))\<rparr>"
      by simp
    show ?thesis
      unfolding s' cell_of_def using a al av ab by simp
  qed
qed

lemma force_keeps_deferred:
  assumes "cell_of l s = Some (Left g)" and "val l' \<noteq> val l" and "force l' s = Some s'"
  shows "cell_of l s' = Some (Left g)"
proof -
  from assms(3) obtain c where c: "cell_of l' s = Some c"
    by (auto simp: force_def cell_of_def split: option.splits if_splits)
  show ?thesis
  proof (cases c)
    case (Right u)
    with c have "force l' s = Some s" by (simp add: force_ready)
    with assms(3) have "s' = s" by simp
    with assms(1) show ?thesis by simp
  next
    case (Left h)
    from c obtain b where b: "val l' = Some b"
      unfolding cell_of_Some by blast
    from assms(1) obtain a where a: "val l = Some a" and al: "a < length (cells s)"
      and av: "cells s ! a = Left g"
      unfolding cell_of_Some by blast
    from a b assms(2) have ab: "b \<noteq> a" by auto
    have "force l' s = Some (s\<lparr>cells := (cells s)[b := Right (fst (h (world s)))],
            world := snd (h (world s))\<rparr>)"
      using c Left b by (simp add: force_deferred)
    with assms(3) have s': "s' = s\<lparr>cells := (cells s)[b := Right (fst (h (world s)))],
            world := snd (h (world s))\<rparr>"
      by simp
    show ?thesis
      unfolding s' cell_of_def using a al av ab by simp
  qed
qed

lemma force_keeps_handle:
  assumes "cell_of l s = Some c" and "force l' s = Some s'"
  shows "\<exists>c'. cell_of l s' = Some c'"
proof (cases c)
  case (Right v)
  with assms show ?thesis
    using force_keeps_ready [of l s v l' s'] by simp
next
  case (Left g)
  show ?thesis
  proof (cases "val l' = val l")
    case True
    then have "force l s = Some s'"
      using assms(2) force_shared [of l l' s] by simp
    with assms(1) Left show ?thesis
      using cell_of_after_force [of l s g s'] by simp
  next
    case False
    with assms Left show ?thesis
      using force_keeps_deferred [of l s g l' s'] by simp
  qed
qed

subsection \<open>Sequences of actions\<close>

lemma perform_keeps_ready:
  assumes "cell_of l s = Some (Right v)" and "perform a s = Some s'"
  shows "cell_of l s' = Some (Right v)"
proof (cases a)
  case (Construct g)
  with assms(2) have "s' = snd (lazy_ctor g s)" by simp
  with assms(1) show ?thesis
    using construct_keeps_cell [of l s "Right v" g] by simp
next
  case (Force l')
  with assms(2) have "force l' s = Some s'" by simp
  with assms(1) show ?thesis
    by (rule force_keeps_ready)
qed

lemma perform_all_keeps_ready:
  assumes "cell_of l s = Some (Right v)" and "perform_all as s = Some s'"
  shows "cell_of l s' = Some (Right v)"
  using assms
proof (induction as arbitrary: s)
  case Nil
  then show ?case by simp
next
  case (Cons a as)
  from Cons.prems(2) obtain s1 where s1: "perform a s = Some s1"
    and rest: "perform_all as s1 = Some s'"
    by (cases "perform a s") simp_all
  from Cons.prems(1) s1 have "cell_of l s1 = Some (Right v)"
    by (rule perform_keeps_ready)
  then show ?case using rest by (rule Cons.IH)
qed

lemma perform_all_keeps_deferred:
  assumes "cell_of l s = Some (Left g)"
    and "\<forall>a\<in>set as. \<not> forces l a"
    and "perform_all as s = Some s'"
  shows "cell_of l s' = Some (Left g)"
  using assms
proof (induction as arbitrary: s)
  case Nil
  then show ?case by simp
next
  case (Cons a as)
  from Cons.prems(3) obtain s1 where s1: "perform a s = Some s1"
    and rest: "perform_all as s1 = Some s'"
    by (cases "perform a s") simp_all
  have "cell_of l s1 = Some (Left g)"
  proof (cases a)
    case (Construct h)
    with s1 have "s1 = snd (lazy_ctor h s)" by simp
    with Cons.prems(1) show ?thesis
      using construct_keeps_cell [of l s "Left g" h] by simp
  next
    case (Force l')
    with Cons.prems(2) have "val l' \<noteq> val l" by simp
    moreover from Force s1 have "force l' s = Some s1" by simp
    ultimately show ?thesis
      using Cons.prems(1) force_keeps_deferred [of l s g l' s1] by simp
  qed
  moreover have "\<forall>a\<in>set as. \<not> forces l a"
    using Cons.prems(2) by simp
  ultimately show ?case using rest by (rule Cons.IH)
qed

text \<open>Forcing handles of a ready cell any number of times changes nothing.\<close>

lemma force_copies_ready:
  assumes "cell_of l s = Some (Right v)"
    and "\<forall>a\<in>set as. forces l a"
  shows "perform_all as s = Some s"
  using assms(2)
proof (induction as)
  case Nil
  then show ?case by simp
next
  case (Cons a as)
  then obtain l' where a: "a = Force l'" and l': "val l' = val l"
    by (cases a) simp_all
  have "force l' s = Some s"
    using force_ready [OF assms(1)] force_shared [OF l', of s] by simp
  moreover have "perform_all as s = Some s"
    using Cons by simp
  ultimately show ?case using a by simp
qed

text \<open>Forcing handles of a deferred cell, at least once, is forcing it once.\<close>

lemma force_copies_deferred:
  assumes "cell_of l s = Some (Left g)"
    and "as \<noteq> []"
    and "\<forall>a\<in>set as. forces l a"
  shows "perform_all as s = force l s"
proof (cases as)
  case Nil
  with assms(2) show ?thesis by simp
next
  case (Cons a rest)
  with assms(3) obtain l' where a: "a = Force l'" and l': "val l' = val l"
    by (cases a) simp_all
  from assms(1) obtain b where b: "val l = Some b"
    unfolding cell_of_Some by blast
  obtain s1 where s1: "force l s = Some s1"
    using force_deferred [OF assms(1) b] by simp
  have "cell_of l s1 = Some (Right (fst (g (world s))))"
    using assms(1) s1 by (rule cell_of_after_force)
  moreover have "\<forall>a\<in>set rest. forces l a"
    using assms(3) Cons by simp
  ultimately have "perform_all rest s1 = Some s1"
    by (rule force_copies_ready)
  moreover have "force l' s = Some s1"
    using s1 force_shared [OF l', of s] by simp
  ultimately show ?thesis
    using Cons a s1 by simp
qed

subsection \<open>Equality\<close>

lemma lazy_eq_forces_both:
  assumes c1: "cell_of l1 s = Some c1" and c2: "cell_of l2 s = Some c2"
  shows "\<exists>v1 v2 s'. lazy_eq ord l1 l2 s = Some (v1 = v2, s')
           \<and> perform_all (if ord then [Force l1, Force l2] else [Force l2, Force l1]) s = Some s'
           \<and> cell_of l1 s' = Some (Right v1) \<and> cell_of l2 s' = Some (Right v2)"
proof (cases ord)
  case True
  from force_makes_ready [OF c1] obtain v1 s1 where f1: "force l1 s = Some s1"
    and r1: "cell_of l1 s1 = Some (Right v1)" and d1: "lazy_deref l1 s = Some (v1, s1)"
    by blast
  from force_keeps_handle [OF c2 f1] obtain c2' where "cell_of l2 s1 = Some c2'"
    by blast
  from force_makes_ready [OF this] obtain v2 s2 where f2: "force l2 s1 = Some s2"
    and r2: "cell_of l2 s2 = Some (Right v2)" and d2: "lazy_deref l2 s1 = Some (v2, s2)"
    by blast
  from r1 f2 have "cell_of l1 s2 = Some (Right v1)"
    by (rule force_keeps_ready)
  moreover have "lazy_eq ord l1 l2 s = Some (v1 = v2, s2)"
    using True d1 d2 by (simp add: lazy_eq_def)
  moreover have "perform_all (if ord then [Force l1, Force l2] else [Force l2, Force l1]) s = Some s2"
    using True f1 f2 by simp
  ultimately show ?thesis using r2 by blast
next
  case False
  from force_makes_ready [OF c2] obtain v2 s2 where f2: "force l2 s = Some s2"
    and r2: "cell_of l2 s2 = Some (Right v2)" and d2: "lazy_deref l2 s = Some (v2, s2)"
    by blast
  from force_keeps_handle [OF c1 f2] obtain c1' where "cell_of l1 s2 = Some c1'"
    by blast
  from force_makes_ready [OF this] obtain v1 s1 where f1: "force l1 s2 = Some s1"
    and r1: "cell_of l1 s1 = Some (Right v1)" and d1: "lazy_deref l1 s2 = Some (v1, s1)"
    by blast
  from r2 f1 have "cell_of l2 s1 = Some (Right v2)"
    by (rule force_keeps_ready)
  moreover have "lazy_eq ord l1 l2 s = Some (v1 = v2, s1)"
    using False d1 d2 by (simp add: lazy_eq_def)
  moreover have "perform_all (if ord then [Force l1, Force l2] else [Force l2, Force l1]) s = Some s1"
    using False f1 f2 by simp
  ultimately show ?thesis using r1 by blast
qed

lemma lazy_eq_ready:
  assumes "cell_of l1 s = Some (Right v1)" and "cell_of l2 s = Some (Right v2)"
  shows "lazy_eq ord l1 l2 s = Some (v1 = v2, s)"
  using assms by (simp add: lazy_eq_def lazy_deref_ready)

text \<open>Two handles of one deferred cell: the generator runs once, for the first operand.\<close>

lemma lazy_eq_shared:
  assumes "cell_of l1 s = Some (Left g)" and "val l2 = val l1"
  shows "\<exists>s'. force l1 s = Some s' \<and> lazy_eq ord l1 l2 s = Some (True, s')"
proof -
  from force_makes_ready [OF assms(1)] obtain v s' where f: "force l1 s = Some s'"
    and r: "cell_of l1 s' = Some (Right v)" and d: "lazy_deref l1 s = Some (v, s')"
    by blast
  from d have d2: "lazy_deref l2 s = Some (v, s')"
    using lazy_deref_shared [OF assms(2), of s] by simp
  from r have "lazy_deref l1 s' = Some (v, s')"
    by (rule lazy_deref_ready)
  moreover from this have "lazy_deref l2 s' = Some (v, s')"
    using lazy_deref_shared [OF assms(2), of s'] by simp
  ultimately have "lazy_eq ord l1 l2 s = Some (True, s')"
    using d d2 by (simp add: lazy_eq_def)
  with f show ?thesis by blast
qed

lemma lazy_eq_pure_pure:
  fixes s :: "('w, 't) store"
  shows "case lazy_pure v s of (a, s1) \<Rightarrow>
           case lazy_pure v s1 of (b, s2) \<Rightarrow>
             val a \<noteq> val b
             \<and> (\<exists>s3. lazy_eq ord a b s2 = Some (True, s3) \<and> world s3 = world s)"
  by (cases ord)
    (simp_all add: lazy_pure_def lazy_ctor_def lazy_eq_def lazy_deref_def force_def cell_of_def
      nth_append)

subsection \<open>The claims on lazy values\<close>

text \<open>
  C6: dereferencing a handle whose cell holds the generator \<open>g\<close> returns the result of
  \<open>g\<close>, stores it in the cell as \<^verbatim>\<open>Right\<close>, and leaves the world as one invocation of \<open>g\<close>
  leaves it. Dereferencing any handle of a cell that holds \<^verbatim>\<open>Right(v)\<close> returns \<open>v\<close> and
  changes nothing, the world included: nothing is invoked. A copy of a handle refers to
  the cell of the original. Forcing handles of one deferred cell any number of times, at
  least once, is forcing it once; and whatever is constructed or forced afterwards, a cell
  that holds \<^verbatim>\<open>Right(v)\<close> holds it for good.
\<close>

theorem force_memoises:
  fixes s :: "('w, 't) store"
  shows "(cell_of l s = Some (make_left g) \<and> val l = Some a \<longrightarrow>
            lazy_deref l s = Some (fst (g (world s)),
              s\<lparr>cells := (cells s)[a := make_right (fst (g (world s)))],
                world := snd (g (world s))\<rparr>))
       \<and> (cell_of l s = Some (make_right v) \<and> val l' = val l \<longrightarrow> lazy_deref l' s = Some (v, s))
       \<and> val (fst (lazy_copy l s)) = val l \<and> snd (lazy_copy l s) = s
       \<and> (cell_of l s = Some (make_left g) \<and> as \<noteq> [] \<and> (\<forall>a\<in>set as. forces l a) \<longrightarrow>
            perform_all as s = force l s)
       \<and> (cell_of l s = Some (make_right v) \<and> perform_all bs s = Some s' \<longrightarrow>
            cell_of l s' = Some (make_right v))"
proof (intro conjI impI)
  assume "cell_of l s = Some (make_left g) \<and> val l = Some a"
  then show "lazy_deref l s = Some (fst (g (world s)),
              s\<lparr>cells := (cells s)[a := make_right (fst (g (world s)))],
                world := snd (g (world s))\<rparr>)"
    by (simp add: lazy_deref_deferred)
next
  assume "cell_of l s = Some (make_right v) \<and> val l' = val l"
  then have "cell_of l' s = Some (make_right v)"
    using cell_of_shared [of l' l s] by simp
  then show "lazy_deref l' s = Some (v, s)"
    by (rule lazy_deref_ready)
next
  show "val (fst (lazy_copy l s)) = val l" and "snd (lazy_copy l s) = s"
    by (simp_all add: lazy_copy_def)
next
  assume "cell_of l s = Some (make_left g) \<and> as \<noteq> [] \<and> (\<forall>a\<in>set as. forces l a)"
  then show "perform_all as s = force l s"
    using force_copies_deferred [of l s g as] by blast
next
  assume "cell_of l s = Some (make_right v) \<and> perform_all bs s = Some s'"
  then show "cell_of l s' = Some (make_right v)"
    using perform_all_keeps_ready [of l s v bs s'] by blast
qed

theorem force_memoises_witness:
  "lazy_deref \<lparr>val = Some 0\<rparr> \<lparr>cells = [make_left (\<lambda>w::nat. (7::int, Suc w))], world = 0\<rparr>
       = Some (7, \<lparr>cells = [make_right 7], world = Suc 0\<rparr>)
   \<and> lazy_deref \<lparr>val = Some 0\<rparr> (\<lparr>cells = [make_right 7], world = Suc 0\<rparr> :: (nat, int) store)
       = Some (7, \<lparr>cells = [make_right 7], world = Suc 0\<rparr>)
   \<and> perform_all [Force \<lparr>val = Some 0\<rparr>, Force \<lparr>val = Some 0\<rparr>, Force \<lparr>val = Some 0\<rparr>]
         \<lparr>cells = [make_left (\<lambda>w::nat. (7::int, Suc w))], world = 0\<rparr>
       = Some \<lparr>cells = [make_right 7], world = Suc 0\<rparr>
   \<and> perform_all [Construct (\<lambda>w. (8, Suc w)), Force \<lparr>val = Some 1\<rparr>, Force \<lparr>val = Some 0\<rparr>]
         (\<lparr>cells = [make_right 7], world = Suc 0\<rparr> :: (nat, int) store)
       = Some \<lparr>cells = [make_right 7, make_right 8], world = Suc (Suc 0)\<rparr>
   \<and> cell_of \<lparr>val = Some 0\<rparr>
         (\<lparr>cells = [make_right 7, make_right 8], world = Suc (Suc 0)\<rparr> :: (nat, int) store)
       = Some (make_right 7)"
proof -
  let ?l = "\<lparr>val = Some 0\<rparr>"
  let ?g = "\<lambda>w::nat. (7::int, Suc w)"
  let ?s0 = "\<lparr>cells = [make_left ?g], world = 0\<rparr>"
  let ?s1 = "\<lparr>cells = [make_right 7], world = Suc 0\<rparr> :: (nat, int) store"
  let ?s2 = "\<lparr>cells = [make_right 7, make_right 8], world = Suc (Suc 0)\<rparr> :: (nat, int) store"
  let ?as = "[Force ?l, Force ?l, Force ?l] :: (nat, int) action list"
  let ?bs = "[Construct (\<lambda>w. (8, Suc w)), Force \<lparr>val = Some 1\<rparr>, Force ?l] :: (nat, int) action list"
  have deferred: "cell_of ?l ?s0 = Some (make_left ?g)" and handle: "val ?l = Some 0"
    and ready: "cell_of ?l ?s1 = Some (make_right 7)"
    by (simp_all add: cell_of_def)
  have copies: "?as \<noteq> []" "\<forall>a\<in>set ?as. forces ?l a"
    by simp_all
  have run: "perform_all ?bs ?s1 = Some ?s2"
    by (simp add: lazy_ctor_def force_def)
  have once: "force ?l ?s0 = Some ?s1"
    by (simp add: force_def)
  note w0 = force_memoises [where l = ?l and l' = ?l and s = ?s0 and g = ?g and a = 0
      and as = ?as]
  note w1 = force_memoises [where l = ?l and l' = ?l and s = ?s1 and v = 7 and bs = ?bs
      and s' = ?s2]
  have "lazy_deref ?l ?s0 = Some (7, ?s1)"
    using w0 deferred handle by simp
  moreover have "lazy_deref ?l ?s1 = Some (7, ?s1)"
    using w1 ready by simp
  moreover have "perform_all ?as ?s0 = Some ?s1"
    using w0 deferred copies once by simp
  moreover have "cell_of ?l ?s2 = Some (make_right 7)"
    using w1 ready run by simp
  ultimately show ?thesis
    using run by simp
qed

text \<open>
  C7: constructing a lazy value, by the constructor, by \<^verbatim>\<open>defer\<close> or by \<^verbatim>\<open>pure\<close>, leaves
  the world as it was (no generator is invoked), and the status of the new handle is
  \<^verbatim>\<open>deferred\<close>. That of \<^verbatim>\<open>pure(v)\<close> is \<^verbatim>\<open>deferred\<close> as well, and dereferencing it gives
  \<open>v\<close> without a change of the world and makes it \<^verbatim>\<open>ready\<close>. A deferred value stays
  deferred over everything that is constructed or forced, as long as its own cell is not
  forced; forcing it succeeds and makes it \<^verbatim>\<open>ready\<close>, and \<^verbatim>\<open>ready\<close> it stays.
\<close>

theorem construction_defers:
  fixes s :: "('w, 't) store"
  shows "world (snd (lazy_ctor g s)) = world s
       \<and> status (fst (lazy_ctor g s)) (snd (lazy_ctor g s)) = Some deferred
       \<and> world (snd (lazy_defer f t s)) = world s
       \<and> status (fst (lazy_defer f t s)) (snd (lazy_defer f t s)) = Some deferred
       \<and> world (snd (lazy_pure v s)) = world s
       \<and> status (fst (lazy_pure v s)) (snd (lazy_pure v s)) = Some deferred
       \<and> (\<exists>s'. lazy_deref (fst (lazy_pure v s)) (snd (lazy_pure v s)) = Some (v, s')
             \<and> world s' = world s \<and> status (fst (lazy_pure v s)) s' = Some ready)
       \<and> (status l s = Some deferred \<and> (\<forall>a\<in>set as. \<not> forces l a) \<and> perform_all as s = Some s' \<longrightarrow>
            status l s' = Some deferred)
       \<and> (status l s = Some deferred \<longrightarrow>
            (\<exists>s'. force l s = Some s' \<and> status l s' = Some ready))
       \<and> (status l s = Some ready \<and> perform_all as s = Some s' \<longrightarrow> status l s' = Some ready)"
proof (intro conjI impI)
  show "world (snd (lazy_ctor g s)) = world s"
    by (rule world_lazy_ctor)
  show "status (fst (lazy_ctor g s)) (snd (lazy_ctor g s)) = Some deferred"
    by (simp add: status_def cell_of_lazy_ctor)
  show "world (snd (lazy_defer f t s)) = world s"
    by (simp add: lazy_defer_def world_lazy_ctor)
  show "status (fst (lazy_defer f t s)) (snd (lazy_defer f t s)) = Some deferred"
    by (simp add: lazy_defer_def status_def cell_of_lazy_ctor)
  show "world (snd (lazy_pure v s)) = world s"
    by (simp add: lazy_pure_def world_lazy_ctor)
  show "status (fst (lazy_pure v s)) (snd (lazy_pure v s)) = Some deferred"
    by (simp add: lazy_pure_def status_def cell_of_lazy_ctor)
  show "\<exists>s'. lazy_deref (fst (lazy_pure v s)) (snd (lazy_pure v s)) = Some (v, s')
             \<and> world s' = world s \<and> status (fst (lazy_pure v s)) s' = Some ready"
    by (simp add: lazy_pure_def lazy_ctor_def lazy_deref_def force_def cell_of_def status_def)
next
  assume h: "status l s = Some deferred \<and> (\<forall>a\<in>set as. \<not> forces l a)
      \<and> perform_all as s = Some s'"
  then obtain g' where "cell_of l s = Some (make_left g')"
    unfolding status_deferred by blast
  with h have "cell_of l s' = Some (make_left g')"
    using perform_all_keeps_deferred [of l s g' as s'] by blast
  then show "status l s' = Some deferred"
    unfolding status_deferred by blast
next
  assume "status l s = Some deferred"
  then obtain g' where "cell_of l s = Some (make_left g')"
    unfolding status_deferred by blast
  then show "\<exists>s'. force l s = Some s' \<and> status l s' = Some ready"
    using force_makes_ready [of l s "make_left g'"] unfolding status_ready by blast
next
  assume h: "status l s = Some ready \<and> perform_all as s = Some s'"
  then obtain u where "cell_of l s = Some (make_right u)"
    unfolding status_ready by blast
  with h have "cell_of l s' = Some (make_right u)"
    using perform_all_keeps_ready [of l s u as s'] by blast
  then show "status l s' = Some ready"
    unfolding status_ready by blast
qed

theorem construction_defers_witness:
  "world (snd (lazy_defer (\<lambda>(a, b) w. (a + b, Suc w)) (2::int, 3::int)
        (\<lparr>cells = [], world = 0\<rparr> :: (nat, int) store))) = 0
   \<and> status (fst (lazy_defer (\<lambda>(a, b) w. (a + b, Suc w)) (2::int, 3::int)
        (\<lparr>cells = [], world = 0\<rparr> :: (nat, int) store)))
        (snd (lazy_defer (\<lambda>(a, b) w. (a + b, Suc w)) (2::int, 3::int)
        (\<lparr>cells = [], world = 0\<rparr> :: (nat, int) store))) = Some deferred
   \<and> status \<lparr>val = Some 0\<rparr>
        \<lparr>cells = [make_left (\<lambda>w::nat. (5::int, Suc w))], world = 0\<rparr> = Some deferred
   \<and> perform_all [Construct (\<lambda>w. (8, w)), Force \<lparr>val = Some 1\<rparr>]
        \<lparr>cells = [make_left (\<lambda>w::nat. (5::int, Suc w))], world = 0\<rparr>
       = Some \<lparr>cells = [make_left (\<lambda>w::nat. (5::int, Suc w)), make_right 8], world = 0\<rparr>
   \<and> status \<lparr>val = Some 0\<rparr>
        \<lparr>cells = [make_left (\<lambda>w::nat. (5::int, Suc w)), make_right 8], world = 0\<rparr>
       = Some deferred
   \<and> force \<lparr>val = Some 0\<rparr> \<lparr>cells = [make_left (\<lambda>w::nat. (5::int, Suc w))], world = 0\<rparr>
       = Some \<lparr>cells = [make_right 5], world = Suc 0\<rparr>
   \<and> status \<lparr>val = Some 0\<rparr> (\<lparr>cells = [make_right 5], world = Suc 0\<rparr> :: (nat, int) store)
       = Some ready
   \<and> perform_all [Force \<lparr>val = Some 0\<rparr>, Construct (\<lambda>w. (8, w))]
        (\<lparr>cells = [make_right 5], world = Suc 0\<rparr> :: (nat, int) store)
       = Some \<lparr>cells = [make_right 5, make_left (\<lambda>w. (8, w))], world = Suc 0\<rparr>
   \<and> status \<lparr>val = Some 0\<rparr>
        (\<lparr>cells = [make_right 5, make_left (\<lambda>w. (8, w))], world = Suc 0\<rparr> :: (nat, int) store)
       = Some ready"
proof -
  let ?l = "\<lparr>val = Some 0\<rparr>"
  let ?g = "\<lambda>w::nat. (5::int, Suc w)"
  let ?e = "\<lparr>cells = [], world = 0\<rparr> :: (nat, int) store"
  let ?f = "\<lambda>(a::int, b::int) (w::nat). (a + b, Suc w)"
  let ?s0 = "\<lparr>cells = [make_left ?g], world = 0\<rparr>"
  let ?s0' = "\<lparr>cells = [make_left ?g, make_right 8], world = 0\<rparr>"
  let ?s1 = "\<lparr>cells = [make_right 5], world = Suc 0\<rparr> :: (nat, int) store"
  let ?s1' = "\<lparr>cells = [make_right 5, make_left (\<lambda>w. (8, w))], world = Suc 0\<rparr> :: (nat, int) store"
  let ?as = "[Construct (\<lambda>w. (8, w)), Force \<lparr>val = Some 1\<rparr>] :: (nat, int) action list"
  let ?bs = "[Force ?l, Construct (\<lambda>w. (8, w))] :: (nat, int) action list"
  have d0: "status ?l ?s0 = Some deferred" and r1: "status ?l ?s1 = Some ready"
    by (simp_all add: status_def cell_of_def)
  have others: "\<forall>a\<in>set ?as. \<not> forces ?l a"
    by simp
  have run0: "perform_all ?as ?s0 = Some ?s0'"
    by (simp add: lazy_ctor_def force_def)
  have run1: "perform_all ?bs ?s1 = Some ?s1'"
    by (simp add: lazy_ctor_def force_def)
  have f0: "force ?l ?s0 = Some ?s1"
    by (simp add: force_def)
  note w = construction_defers [where s = ?e and f = ?f and t = "(2, 3)" and g = ?g and v = 5
      and l = ?l and as = "[]" and s' = ?e]
  note w0 = construction_defers [where s = ?s0 and l = ?l and as = ?as and s' = ?s0'
      and f = ?f and t = "(2, 3)" and g = ?g and v = 5]
  note w1 = construction_defers [where s = ?s1 and l = ?l and as = ?bs and s' = ?s1'
      and f = ?f and t = "(2, 3)" and g = ?g and v = 5]
  have "world (snd (lazy_defer ?f (2, 3) ?e)) = 0"
    using w by simp
  moreover have "status (fst (lazy_defer ?f (2, 3) ?e)) (snd (lazy_defer ?f (2, 3) ?e)) = Some deferred"
    using w by blast
  moreover have "status ?l ?s0' = Some deferred"
    using w0 d0 others run0 by blast
  moreover have "status ?l ?s1' = Some ready"
    using w1 r1 run1 by blast
  ultimately show ?thesis
    using d0 r1 run0 run1 f0 by simp
qed

text \<open>
  C8: \<^verbatim>\<open>operator==\<close> on two handles that have cells succeeds, in either order of
  evaluation of its operands; the store it leaves is the one that forcing both operands
  leaves, both cells are ready in it, and the result is whether the values in the two
  cells are equal. Nothing in this asks whether the two handles share a cell. Comparing
  again returns the same and changes nothing more, so no generator runs a second time;
  and when both handles share one deferred cell, the comparison forces that cell once and
  is true. Two values built by \<^verbatim>\<open>pure(3)\<close> have different cells and compare equal, with no
  change of the world.
\<close>

theorem lazy_eq_compares_forced_values:
  fixes s :: "('w, 't) store" and z :: "('w, int) store"
  shows "(cell_of l1 s = Some c1 \<and> cell_of l2 s = Some c2 \<longrightarrow>
            (\<exists>v1 v2 s'. lazy_eq ord l1 l2 s = Some (v1 = v2, s')
               \<and> perform_all (if ord then [Force l1, Force l2] else [Force l2, Force l1]) s = Some s'
               \<and> cell_of l1 s' = Some (make_right v1) \<and> cell_of l2 s' = Some (make_right v2)
               \<and> lazy_eq ord' l1 l2 s' = Some (v1 = v2, s')))
       \<and> (cell_of l1 s = Some (make_left g) \<and> val l2 = val l1 \<longrightarrow>
            (\<exists>s'. force l1 s = Some s' \<and> lazy_eq ord l1 l2 s = Some (True, s')))
       \<and> (case lazy_pure 3 z of (a, z1) \<Rightarrow>
            case lazy_pure 3 z1 of (b, z2) \<Rightarrow>
              val a \<noteq> val b
              \<and> (\<exists>z3. lazy_eq ord a b z2 = Some (True, z3) \<and> world z3 = world z))"
proof (intro conjI impI)
  assume "cell_of l1 s = Some c1 \<and> cell_of l2 s = Some c2"
  then obtain v1 v2 s' where "lazy_eq ord l1 l2 s = Some (v1 = v2, s')"
    and "perform_all (if ord then [Force l1, Force l2] else [Force l2, Force l1]) s = Some s'"
    and r1: "cell_of l1 s' = Some (make_right v1)" and r2: "cell_of l2 s' = Some (make_right v2)"
    using lazy_eq_forces_both [of l1 s c1 l2 c2 ord] by blast
  moreover from r1 r2 have "lazy_eq ord' l1 l2 s' = Some (v1 = v2, s')"
    by (rule lazy_eq_ready)
  ultimately show "\<exists>v1 v2 s'. lazy_eq ord l1 l2 s = Some (v1 = v2, s')
               \<and> perform_all (if ord then [Force l1, Force l2] else [Force l2, Force l1]) s = Some s'
               \<and> cell_of l1 s' = Some (make_right v1) \<and> cell_of l2 s' = Some (make_right v2)
               \<and> lazy_eq ord' l1 l2 s' = Some (v1 = v2, s')"
    by blast
next
  assume "cell_of l1 s = Some (make_left g) \<and> val l2 = val l1"
  then show "\<exists>s'. force l1 s = Some s' \<and> lazy_eq ord l1 l2 s = Some (True, s')"
    using lazy_eq_shared [of l1 s g l2 ord] by blast
next
  show "case lazy_pure 3 z of (a, z1) \<Rightarrow>
            case lazy_pure 3 z1 of (b, z2) \<Rightarrow>
              val a \<noteq> val b
              \<and> (\<exists>z3. lazy_eq ord a b z2 = Some (True, z3) \<and> world z3 = world z)"
    by (rule lazy_eq_pure_pure)
qed

theorem lazy_eq_compares_forced_values_witness:
  "cell_of \<lparr>val = Some 0\<rparr>
       \<lparr>cells = [make_left (\<lambda>w::nat. (3::int, Suc w)), make_left (\<lambda>w. (3, Suc w))], world = 0\<rparr>
     = Some (make_left (\<lambda>w. (3, Suc w)))
   \<and> cell_of \<lparr>val = Some 1\<rparr>
       \<lparr>cells = [make_left (\<lambda>w::nat. (3::int, Suc w)), make_left (\<lambda>w. (3, Suc w))], world = 0\<rparr>
     = Some (make_left (\<lambda>w. (3, Suc w)))
   \<and> lazy_eq True \<lparr>val = Some 0\<rparr> \<lparr>val = Some 1\<rparr>
       \<lparr>cells = [make_left (\<lambda>w::nat. (3::int, Suc w)), make_left (\<lambda>w. (3, Suc w))], world = 0\<rparr>
     = Some (True, \<lparr>cells = [make_right 3, make_right 3], world = Suc (Suc 0)\<rparr>)
   \<and> lazy_eq False \<lparr>val = Some 0\<rparr> \<lparr>val = Some 1\<rparr>
       (\<lparr>cells = [make_right 3, make_right 3], world = Suc (Suc 0)\<rparr> :: (nat, int) store)
     = Some (True, \<lparr>cells = [make_right 3, make_right 3], world = Suc (Suc 0)\<rparr>)
   \<and> lazy_eq True \<lparr>val = Some 0\<rparr> \<lparr>val = Some 0\<rparr>
       \<lparr>cells = [make_left (\<lambda>w::nat. (3::int, Suc w)), make_left (\<lambda>w. (3, Suc w))], world = 0\<rparr>
     = Some (True, \<lparr>cells = [make_right 3, make_left (\<lambda>w. (3, Suc w))], world = Suc 0\<rparr>)"
proof -
  let ?g = "\<lambda>w::nat. (3::int, Suc w)"
  let ?l1 = "\<lparr>val = Some 0\<rparr>"
  let ?l2 = "\<lparr>val = Some 1\<rparr>"
  let ?s = "\<lparr>cells = [make_left ?g, make_left ?g], world = 0\<rparr>"
  let ?s1 = "\<lparr>cells = [make_right 3, make_left ?g], world = Suc 0\<rparr>"
  let ?s2 = "\<lparr>cells = [make_right 3, make_right 3], world = Suc (Suc 0)\<rparr> :: (nat, int) store"
  let ?z = "\<lparr>cells = [], world = 0\<rparr> :: (nat, int) store"
  have c1: "cell_of ?l1 ?s = Some (make_left ?g)" and c2: "cell_of ?l2 ?s = Some (make_left ?g)"
    by (simp_all add: cell_of_def)
  have run: "perform_all [Force ?l1, Force ?l2] ?s = Some ?s2"
    by (simp add: force_def)
  have f1: "force ?l1 ?s = Some ?s1"
    by (simp add: force_def)
  note w = lazy_eq_compares_forced_values [where ?l1.0 = ?l1 and ?l2.0 = ?l2 and s = ?s
      and ?c1.0 = "make_left ?g" and ?c2.0 = "make_left ?g" and ord = True and ord' = False
      and g = ?g and z = ?z]
  note w' = lazy_eq_compares_forced_values [where ?l1.0 = ?l1 and ?l2.0 = ?l1 and s = ?s
      and ?c1.0 = "make_left ?g" and ?c2.0 = "make_left ?g" and ord = True and ord' = False
      and g = ?g and z = ?z]
  from w c1 c2 obtain v1 v2 s' where "lazy_eq True ?l1 ?l2 ?s = Some (v1 = v2, s')"
    and "perform_all [Force ?l1, Force ?l2] ?s = Some s'"
    and "cell_of ?l1 s' = Some (make_right v1)" and "cell_of ?l2 s' = Some (make_right v2)"
    and "lazy_eq False ?l1 ?l2 s' = Some (v1 = v2, s')"
    by auto
  with run have "lazy_eq True ?l1 ?l2 ?s = Some (True, ?s2)"
    and "lazy_eq False ?l1 ?l2 ?s2 = Some (True, ?s2)"
    by (auto simp: cell_of_def)
  moreover from w' c1 f1 have "lazy_eq True ?l1 ?l1 ?s = Some (True, ?s1)"
    by auto
  ultimately show ?thesis
    using c1 c2 by simp
qed

text \<open>
  C10: copy assignment changes the handle assigned to and nothing else. The store is the
  same afterwards, so no generator was invoked and every cell, that of either handle
  among them, holds what it held. The handle assigned to holds the pointer of the right
  hand side: both refer to the cell of the right hand side, report its status, and
  forcing or dereferencing the one is forcing or dereferencing the other. (Move
  assignment rebinds the left hand side in the same way and leaves the handle moved from
  empty.)
\<close>

theorem assignment_rebinds:
  fixes s :: "('w, 't) store"
  shows "(lazy_assign this rhs s = (this', s') \<longrightarrow>
            s' = s \<and> val this' = val rhs
          \<and> cell_of this' s' = cell_of rhs s
          \<and> cell_of this s' = cell_of this s
          \<and> cell_of rhs s' = cell_of rhs s
          \<and> status this' s' = status rhs s
          \<and> force this' s' = force rhs s'
          \<and> lazy_deref this' s' = lazy_deref rhs s')
       \<and> (lazy_move_assign this rhs s = ((this', rhs'), s') \<longrightarrow>
            s' = s \<and> val this' = val rhs \<and> val rhs' = None
          \<and> cell_of this' s' = cell_of rhs s)"
proof (intro conjI impI)
  assume "lazy_assign this rhs s = (this', s')"
  then have s': "s' = s" and v: "val this' = val rhs"
    by (auto simp: lazy_assign_def)
  show "s' = s" and "val this' = val rhs"
    by (fact s', fact v)
  show "cell_of this' s' = cell_of rhs s"
    unfolding s' using v by (rule cell_of_shared)
  show "cell_of this s' = cell_of this s" and "cell_of rhs s' = cell_of rhs s"
    unfolding s' by (rule refl)+
  show "status this' s' = status rhs s"
    unfolding s' status_def cell_of_shared [OF v] ..
  show "force this' s' = force rhs s'"
    using v by (rule force_shared)
  show "lazy_deref this' s' = lazy_deref rhs s'"
    using v by (rule lazy_deref_shared)
next
  assume "lazy_move_assign this rhs s = ((this', rhs'), s')"
  then have s': "s' = s" and v: "val this' = val rhs" and e: "val rhs' = None"
    by (auto simp: lazy_move_assign_def)
  show "s' = s" and "val this' = val rhs" and "val rhs' = None"
    by (fact s', fact v, fact e)
  show "cell_of this' s' = cell_of rhs s"
    unfolding s' using v by (rule cell_of_shared)
qed

theorem assignment_rebinds_witness:
  "lazy_assign \<lparr>val = Some 0\<rparr> \<lparr>val = Some 1\<rparr>
       \<lparr>cells = [make_left (\<lambda>w::nat. (3::int, Suc w)), make_right 5], world = 0\<rparr>
     = (\<lparr>val = Some 1\<rparr>,
        \<lparr>cells = [make_left (\<lambda>w::nat. (3::int, Suc w)), make_right 5], world = 0\<rparr>)
   \<and> cell_of \<lparr>val = Some 1\<rparr>
        \<lparr>cells = [make_left (\<lambda>w::nat. (3::int, Suc w)), make_right 5], world = 0\<rparr>
     = Some (make_right 5)
   \<and> cell_of \<lparr>val = Some 0\<rparr>
        \<lparr>cells = [make_left (\<lambda>w::nat. (3::int, Suc w)), make_right 5], world = 0\<rparr>
     = Some (make_left (\<lambda>w. (3, Suc w)))
   \<and> status \<lparr>val = Some 1\<rparr>
        \<lparr>cells = [make_left (\<lambda>w::nat. (3::int, Suc w)), make_right 5], world = 0\<rparr>
     = Some ready
   \<and> lazy_move_assign \<lparr>val = Some 0\<rparr> \<lparr>val = Some 1\<rparr>
       \<lparr>cells = [make_left (\<lambda>w::nat. (3::int, Suc w)), make_right 5], world = 0\<rparr>
     = ((\<lparr>val = Some 1\<rparr>, \<lparr>val = None\<rparr>),
        \<lparr>cells = [make_left (\<lambda>w::nat. (3::int, Suc w)), make_right 5], world = 0\<rparr>)"
proof -
  let ?g = "\<lambda>w::nat. (3::int, Suc w)"
  let ?lhs = "\<lparr>val = Some 0\<rparr>"
  let ?rhs = "\<lparr>val = Some 1\<rparr>"
  let ?s = "\<lparr>cells = [make_left ?g, make_right 5], world = 0\<rparr>"
  have a: "lazy_assign ?lhs ?rhs ?s = (?rhs, ?s)"
    by (simp add: lazy_assign_def)
  have m: "lazy_move_assign ?lhs ?rhs ?s = ((?rhs, \<lparr>val = None\<rparr>), ?s)"
    by (simp add: lazy_move_assign_def)
  have c: "cell_of ?rhs ?s = Some (make_right 5)" "cell_of ?lhs ?s = Some (make_left ?g)"
    by (simp_all add: cell_of_def)
  note w = assignment_rebinds [where this = ?lhs and rhs = ?rhs and s = ?s and this' = ?rhs
      and s' = ?s and rhs' = "\<lparr>val = None\<rparr>"]
  from w a c have "status ?rhs ?s = Some ready"
    by (simp add: status_def)
  with a m c show ?thesis by simp
qed

end
